theory Spec2Isabelle
  imports Main "HOL-Library.AList" "HOL-Library.Sublist"
begin

section \<open>Python values and exceptions\<close>

text \<open>
  The exceptions that the modelled code can raise. \<open>FonzException\<close> carries the
  message it is raised with; it is the only exception class the validator raises itself
  (for a malformed selector, for a selection that names an unknown model or explore, and
  for an unexpected query result). The others are raised by the Python runtime
  (subscripting, arithmetic) or by the HTTP session inside \<open>_run_async_query\<close>.
\<close>

datatype py_error =
    FonzException string
  | IndexError
  | KeyError
  | TypeError
  | AttributeError
  | ClientError

text \<open>
  The values a decoded JSON document is made of, which are also the values passed as
  arguments where Python checks nothing (\<open>validate(mode)\<close>). Numbers are integers;
  a dictionary keeps its items as an association list with string keys.
\<close>

datatype py_value =
    PyNone
  | PyBool bool
  | PyInt int
  | PyStr string
  | PyList "py_value list"
  | PyDict "(string \<times> py_value) list"

text \<open>Truth value testing, as \<open>if x:\<close> does it.\<close>

fun truthy :: "py_value \<Rightarrow> bool" where
  "truthy PyNone = False"
| "truthy (PyBool b) = b"
| "truthy (PyInt n) = (n \<noteq> 0)"
| "truthy (PyStr s) = (s \<noteq> [])"
| "truthy (PyList xs) = (xs \<noteq> [])"
| "truthy (PyDict kvs) = (kvs \<noteq> [])"

text \<open>\<open>d.get(key)\<close> on a dictionary: \<open>None\<close> when the key is missing.\<close>

definition dict_get :: "(string \<times> py_value) list \<Rightarrow> string \<Rightarrow> py_value" where
  "dict_get kvs key = (case map_of kvs key of None \<Rightarrow> PyNone | Some v \<Rightarrow> v)"

text \<open>\<open>x.get(key)\<close>: only a dictionary has the method.\<close>

fun py_get :: "py_value \<Rightarrow> string \<Rightarrow> py_error + py_value" where
  "py_get (PyDict kvs) key = Inr (dict_get kvs key)"
| "py_get v key = Inl AttributeError"

text \<open>\<open>x[key]\<close> with a string key.\<close>

fun getitem_str :: "py_value \<Rightarrow> string \<Rightarrow> py_error + py_value" where
  "getitem_str (PyDict kvs) key =
     (case map_of kvs key of None \<Rightarrow> Inl KeyError | Some v \<Rightarrow> Inr v)"
| "getitem_str v key = Inl TypeError"

text \<open>
  \<open>x[0]\<close>. A string yields its first character; the keys of a decoded JSON object
  are strings, so \<open>0\<close> is never among them.
\<close>

fun getitem_0 :: "py_value \<Rightarrow> py_error + py_value" where
  "getitem_0 (PyList []) = Inl IndexError"
| "getitem_0 (PyList (x # xs)) = Inr x"
| "getitem_0 (PyStr []) = Inl IndexError"
| "getitem_0 (PyStr (c # cs)) = Inr (PyStr [c])"
| "getitem_0 (PyDict kvs) = Inl KeyError"
| "getitem_0 v = Inl TypeError"

text \<open>\<open>x - 1\<close>: defined on integers and on booleans (which are integers).\<close>

fun minus_one :: "py_value \<Rightarrow> py_error + int" where
  "minus_one (PyInt n) = Inr (n - 1)"
| "minus_one (PyBool b) = Inr ((if b then 1 else 0) - 1)"
| "minus_one v = Inl TypeError"

section \<open>Strings\<close>

definition quote :: char where
  "quote = CHR 0x27"

definition newline :: char where
  "newline = CHR 0x0A"

text \<open>\<open>s.split(".")\<close>: the pieces between the dots, empty pieces included.\<close>

fun split_dot :: "string \<Rightarrow> string list" where
  "split_dot [] = [[]]"
| "split_dot (c # cs) =
     (if c = CHR ''.'' then [] # split_dot cs
      else (case split_dot cs of
              [] \<Rightarrow> [[c]]
            | t # ts \<Rightarrow> (c # t) # ts))"

text \<open>\<open>sep.join(xs)\<close>.\<close>

fun join :: "string \<Rightarrow> string list \<Rightarrow> string" where
  "join sep [] = []"
| "join sep [x] = x"
| "join sep (x # y # ys) = x @ sep @ join sep (y # ys)"

section \<open>Selector parsing\<close>

text \<open>
  A selection is the \<open>defaultdict(set)\<close> of \<open>parse_selectors\<close>: model names in
  the order of their first insertion, each with its set of explore names.
\<close>

type_synonym selection = "(string \<times> string set) list"

definition selector_message :: "string \<Rightarrow> string" where
  "selector_message selector =
     ''Explore selector '' @ [quote] @ selector @ ''' is not valid.'' @ [newline] @
     ''Instead, use the format 'model_name.explore_name'. '' @
     ''Use 'model_name.*' to select all explores in a model.''"

text \<open>\<open>selection[model].add(explore)\<close>; a missing key starts from the empty set.\<close>

definition selection_add :: "string \<Rightarrow> string \<Rightarrow> selection \<Rightarrow> selection" where
  "selection_add model explore selection =
     AList.map_default model {explore} (insert explore) selection"

text \<open>
  The loop of \<open>parse_selectors\<close>. The unpacking \<open>model, explore = selector.split(".")\<close>
  raises \<open>ValueError\<close> unless the split has exactly two pieces, and the handler turns
  that into a \<open>FonzException\<close>.
\<close>

fun parse_selectors_loop :: "selection \<Rightarrow> string list \<Rightarrow> py_error + selection" where
  "parse_selectors_loop selection [] = Inr selection"
| "parse_selectors_loop selection (selector # selectors) =
     (case split_dot selector of
        [model, explore] \<Rightarrow>
          parse_selectors_loop (selection_add model explore selection) selectors
      | _ \<Rightarrow> Inl (FonzException (selector_message selector)))"

definition parse_selectors :: "string list \<Rightarrow> py_error + selection" where
  "parse_selectors selectors = parse_selectors_loop [] selectors"

section \<open>The LookML hierarchy\<close>

text \<open>
  Modelled from the spec: the classes \<open>SqlError\<close> (fonz.exceptions) and
  \<open>Project\<close>, \<open>Model\<close>, \<open>Explore\<close>, \<open>Dimension\<close> (fonz.lookml) are
  not among the sources. Their attributes are those of the spec's data model, which are
  also the ones the validator reads and writes.
\<close>

record sql_error =
  err_path :: string
  err_sql :: py_value
  err_line_number :: "int option"
  err_message :: py_value
  err_url :: "string option"

record dimension =
  dimension_name :: string
  dimension_url :: string
  dimension_ignore :: bool
  dimension_errored :: bool
  dimension_error :: "sql_error option"

record explore =
  explore_name :: string
  explore_dimensions :: "dimension list"
  explore_errored :: bool
  explore_error :: "sql_error option"

record model =
  model_name :: string
  model_project :: string
  model_explores :: "explore list"
  model_errored :: bool

record project =
  project_name :: string
  project_models :: "model list"

text \<open>
  Modelled from the spec: what the listing calls of the client return
  (\<open>listModels\<close>: name, project and the names of the explores; \<open>listDimensions\<close>:
  name, url and ignore), and the \<open>from_json\<close> constructors and \<open>add_dimension\<close>
  of fonz.lookml: a node starts without dimensions, without an error and not errored, and
  a dimension is attached behind those already there.
\<close>

record model_json =
  mj_name :: string
  mj_project :: string
  mj_explores :: "string list"

record dimension_json =
  dj_name :: string
  dj_url :: string
  dj_ignore :: bool

definition Explore_from_json :: "string \<Rightarrow> explore" where
  "Explore_from_json n =
     \<lparr>explore_name = n, explore_dimensions = [], explore_errored = False,
      explore_error = None\<rparr>"

definition Model_from_json :: "model_json \<Rightarrow> model" where
  "Model_from_json mj =
     \<lparr>model_name = mj_name mj, model_project = mj_project mj,
      model_explores = map Explore_from_json (mj_explores mj), model_errored = False\<rparr>"

definition Dimension_from_json :: "dimension_json \<Rightarrow> dimension" where
  "Dimension_from_json dj =
     \<lparr>dimension_name = dj_name dj, dimension_url = dj_url dj,
      dimension_ignore = dj_ignore dj, dimension_errored = False,
      dimension_error = None\<rparr>"

definition add_dimension :: "dimension \<Rightarrow> explore \<Rightarrow> explore" where
  "add_dimension d e = e\<lparr>explore_dimensions := explore_dimensions e @ [d]\<rparr>"

text \<open>
  The Looker client (fonz.client is not among the sources) is a parameter: its base URL,
  the answers of its two listing calls, and \<open>query_result\<close>, the outcome of
  \<open>create_query\<close>, \<open>run_query\<close> and \<open>get_query_results\<close> for a model name, an
  explore name and a list of dimension names: the decoded result, or the exception of
  the HTTP session.
\<close>

record client =
  base_url :: string
  get_models :: "model_json list"
  get_dimensions :: "string \<Rightarrow> string \<Rightarrow> dimension_json list"
  query_result :: "string \<Rightarrow> string \<Rightarrow> string list \<Rightarrow> py_error + py_value"

text \<open>\<open>SqlValidator.__init__\<close>: the project of the given name, without models.\<close>

definition SqlValidator_init :: "string \<Rightarrow> project" where
  "SqlValidator_init name = \<lparr>project_name = name, project_models = []\<rparr>"

section \<open>Selection against the discovered names\<close>

text \<open>
  The message of \<open>_select\<close>. The missing names are joined in the iteration order of
  the Python set \<open>difference\<close>, which the language leaves open: \<open>set_order\<close> is
  that order.
\<close>

definition select_message ::
  "(string set \<Rightarrow> string list) \<Rightarrow> string \<Rightarrow> string set \<Rightarrow> string \<Rightarrow> string" where
  "select_message set_order class_name difference project =
     class_name @ (if card difference = 1 then [] else ''s'') @ '' '' @
     join '', '' (set_order difference) @
     '' not found in LookML for project '' @ [quote] @ project @ [quote] @ ''.''"

text \<open>
  \<open>_select\<close>. Of \<open>choices\<close> only \<open>set(choices)\<close> is used, so it is passed as a
  set. \<open>class_name\<close> is the \<open>__class__.__name__\<close> of the elements of
  \<open>select_from\<close> and \<open>name_of\<close> their \<open>name\<close> attribute. The message is
  built from \<open>select_from[0]\<close>, which raises \<open>IndexError\<close> on an empty list.
\<close>

definition select ::
  "(string set \<Rightarrow> string list) \<Rightarrow> string \<Rightarrow> string \<Rightarrow> ('a \<Rightarrow> string) \<Rightarrow>
     string set \<Rightarrow> 'a list \<Rightarrow> py_error + 'a list" where
  "select set_order project class_name name_of choices select_from =
     (let unique_choices = choices;
          select_from_names = set (map name_of select_from);
          difference = unique_choices - select_from_names
      in if difference \<noteq> {} then
           (case select_from of
              [] \<Rightarrow> Inl IndexError
            | first # rest \<Rightarrow>
                Inl (FonzException (select_message set_order class_name difference project)))
         else Inr (filter (\<lambda>each. name_of each \<in> unique_choices) select_from))"

section \<open>Building the hierarchy\<close>

text \<open>
  The model-level wildcard: \<open>selection.pop("*")\<close>, then
  \<open>selection[model.name].update(explore_names)\<close> for every model of the project.
\<close>

definition expand_models :: "selection \<Rightarrow> model list \<Rightarrow> selection" where
  "expand_models selection models_in_project =
     (if ''*'' \<in> set (map fst selection) then
        (let explore_names = (case map_of selection ''*'' of None \<Rightarrow> {} | Some s \<Rightarrow> s);
             popped = AList.delete ''*'' selection
         in fold (\<lambda>model sel.
                    AList.map_default (model_name model) explore_names
                      (\<lambda>s. s \<union> explore_names) sel)
              models_in_project popped)
      else selection)"

text \<open>\<open>selection[name]\<close> on the \<open>defaultdict\<close>: a missing key is entered with the empty set.\<close>

definition selection_get :: "selection \<Rightarrow> string \<Rightarrow> string set \<times> selection" where
  "selection_get selection name =
     (case map_of selection name of
        None \<Rightarrow> ({}, selection @ [(name, {})])
      | Some s \<Rightarrow> (s, selection))"

text \<open>The explore-level wildcard, on the set found under the model's name.\<close>

definition expand_explores :: "string set \<Rightarrow> explore list \<Rightarrow> string set" where
  "expand_explores selected_explore_names explores =
     (if ''*'' \<in> selected_explore_names
      then (selected_explore_names - {''*''}) \<union> set (map explore_name explores)
      else selected_explore_names)"

text \<open>The dimensions of one chosen explore: the URL is prefixed, ignored ones are left out.\<close>

definition load_dimensions :: "client \<Rightarrow> string \<Rightarrow> explore \<Rightarrow> explore" where
  "load_dimensions c mname explore =
     fold (\<lambda>dimension_json e.
             (let dimension = Dimension_from_json dimension_json;
                  dimension' = dimension\<lparr>dimension_url := base_url c @ dimension_url dimension\<rparr>
              in if \<not> dimension_ignore dimension' then add_dimension dimension' e else e))
       (get_dimensions c mname (explore_name explore)) explore"

text \<open>
  The loop over the selected models. The set of explore names is changed in place inside
  the selection, so the selection is handed on to the next model.
\<close>

fun build_models ::
  "client \<Rightarrow> (string set \<Rightarrow> string list) \<Rightarrow> string \<Rightarrow> selection \<Rightarrow> model list \<Rightarrow>
     py_error + model list" where
  "build_models c set_order project selection [] = Inr []"
| "build_models c set_order project selection (model # models) =
     (let (names, selection1) = selection_get selection (model_name model);
          selected_explore_names = expand_explores names (model_explores model);
          selection2 = AList.update (model_name model) selected_explore_names selection1
      in case select set_order project ''Explore'' explore_name selected_explore_names
                (model_explores model) of
           Inl e \<Rightarrow> Inl e
         | Inr selected_explores \<Rightarrow>
             (let model' = model\<lparr>model_explores :=
                    map (load_dimensions c (model_name model)) selected_explores\<rparr>
              in case build_models c set_order project selection2 models of
                   Inl e \<Rightarrow> Inl e
                 | Inr models' \<Rightarrow> Inr (model' # models')))"

text \<open>
  \<open>build_project\<close>. The validator's project receives the models only in the last
  statement; an exception before that leaves it as it was.
\<close>

definition build_project ::
  "client \<Rightarrow> (string set \<Rightarrow> string list) \<Rightarrow> string list \<Rightarrow> project \<Rightarrow> py_error + project" where
  "build_project c set_order selectors self =
     (case parse_selectors selectors of
        Inl e \<Rightarrow> Inl e
      | Inr selection \<Rightarrow>
          (let all_models = map Model_from_json (get_models c);
               models_in_project = filter (\<lambda>model. model_project model = project_name self) all_models;
               selection1 = expand_models selection models_in_project
           in case select set_order (project_name self) ''Model'' model_name
                     (set (map fst selection1)) models_in_project of
                Inl e \<Rightarrow> Inl e
              | Inr selected_models \<Rightarrow>
                  (case build_models c set_order (project_name self) selection1 selected_models of
                     Inl e \<Rightarrow> Inl e
                   | Inr models \<Rightarrow> Inr (self\<lparr>project_models := models\<rparr>))))"

section \<open>Running the queries\<close>

text \<open>
  The state of a validation run: the validator's project, whose nodes the queries write
  to, and the queries sent to the service so far, each with the model name, the explore
  name and the dimension names \<open>_run_async_query\<close> was called with.
\<close>

type_synonym query = "string \<times> string \<times> string list"

record run_state =
  rs_project :: project
  rs_queries :: "query list"

text \<open>
  The nodes of the hierarchy are objects referred to from one place only (the list of
  their parent), so a reference to a node is its position: model \<open>i\<close> of the project,
  explore \<open>j\<close> of that model, dimension \<open>k\<close> of that explore.
\<close>

definition model_at :: "run_state \<Rightarrow> nat \<Rightarrow> model" where
  "model_at st i = project_models (rs_project st) ! i"

definition explore_at :: "run_state \<Rightarrow> nat \<Rightarrow> nat \<Rightarrow> explore" where
  "explore_at st i j = model_explores (model_at st i) ! j"

definition dimension_at :: "run_state \<Rightarrow> nat \<Rightarrow> nat \<Rightarrow> nat \<Rightarrow> dimension" where
  "dimension_at st i j k = explore_dimensions (explore_at st i j) ! k"

definition update_dimension :: "nat \<Rightarrow> (dimension \<Rightarrow> dimension) \<Rightarrow> explore \<Rightarrow> explore" where
  "update_dimension k f e =
     e\<lparr>explore_dimensions := (explore_dimensions e)[k := f (explore_dimensions e ! k)]\<rparr>"

definition update_explore :: "nat \<Rightarrow> (explore \<Rightarrow> explore) \<Rightarrow> model \<Rightarrow> model" where
  "update_explore j f m =
     m\<lparr>model_explores := (model_explores m)[j := f (model_explores m ! j)]\<rparr>"

definition update_model :: "nat \<Rightarrow> (model \<Rightarrow> model) \<Rightarrow> run_state \<Rightarrow> run_state" where
  "update_model i f st =
     st\<lparr>rs_project := (rs_project st)\<lparr>project_models :=
           (project_models (rs_project st))[i := f (project_models (rs_project st) ! i)]\<rparr>\<rparr>"

text \<open>\<open>isinstance(result, list)\<close> and \<open>isinstance(result, dict)\<close>.\<close>

fun is_list :: "py_value \<Rightarrow> bool" where
  "is_list (PyList xs) = True"
| "is_list v = False"

fun is_dict :: "py_value \<Rightarrow> bool" where
  "is_dict (PyDict kvs) = True"
| "is_dict v = False"

text \<open>The truth value of \<open>result.get("errors")\<close>, for a result that is a dictionary.\<close>

definition has_errors :: "py_value \<Rightarrow> bool" where
  "has_errors result =
     (case py_get result ''errors'' of Inl e \<Rightarrow> False | Inr errors \<Rightarrow> truthy errors)"

record error_params =
  p_sql :: py_value
  p_line_number :: "int option"
  p_message :: py_value

text \<open>The line number of \<open>_get_error_from_api_result\<close>.\<close>

definition error_line_number :: "py_value \<Rightarrow> py_error + int option" where
  "error_line_number error =
     (case py_get error ''sql_error_loc'' of
        Inl e \<Rightarrow> Inl e
      | Inr loc \<Rightarrow>
          if truthy loc then
            (case getitem_str error ''sql_error_loc'' of
               Inl e \<Rightarrow> Inl e
             | Inr loc' \<Rightarrow>
                 (case getitem_str loc' ''line'' of
                    Inl e \<Rightarrow> Inl e
                  | Inr line \<Rightarrow>
                      (case minus_one line of
                         Inl e \<Rightarrow> Inl e
                       | Inr n \<Rightarrow> Inr (Some n))))
          else Inr None)"

definition get_error_from_api_result :: "py_value \<Rightarrow> py_error + error_params" where
  "get_error_from_api_result result =
     (case getitem_str result ''errors'' of
        Inl e \<Rightarrow> Inl e
      | Inr errors \<Rightarrow>
     (case getitem_0 errors of
        Inl e \<Rightarrow> Inl e
      | Inr error \<Rightarrow>
     (case getitem_str error ''message_details'' of
        Inl e \<Rightarrow> Inl e
      | Inr message \<Rightarrow>
     (case error_line_number error of
        Inl e \<Rightarrow> Inl e
      | Inr line_number \<Rightarrow>
     (case getitem_str result ''sql'' of
        Inl e \<Rightarrow> Inl e
      | Inr sql \<Rightarrow>
          Inr \<lparr>p_sql = sql, p_line_number = line_number, p_message = message\<rparr>)))))"

text \<open>\<open>_run_async_query\<close>: the query goes out, the client's outcome comes back.\<close>

definition run_async_query ::
  "client \<Rightarrow> string \<Rightarrow> string \<Rightarrow> string list \<Rightarrow> run_state \<Rightarrow>
     (py_error + py_value) \<times> run_state" where
  "run_async_query c model explore dimensions st =
     (query_result c model explore dimensions,
      st\<lparr>rs_queries := rs_queries st @ [(model, explore, dimensions)]\<rparr>)"

definition unexpected_message :: "string \<Rightarrow> string \<Rightarrow> string \<Rightarrow> string \<Rightarrow> string" where
  "unexpected_message kind model_name' node_name result_text =
     ''Unexpected API result for '' @ kind @ '' '' @ [quote] @ model_name' @ ''/'' @
     node_name @ [quote] @ ''. API result obtained: '' @ result_text"

text \<open>
  The part of \<open>_query_explore\<close> that follows the \<open>await\<close>, for explore \<open>j\<close>
  of model \<open>i\<close>. \<open>outcome\<close> is what \<open>_run_async_query\<close> came back with: the
  result, or the exception, which is passed on. \<open>py_str\<close> is Python's formatting of
  the result inside the message. The error has no URL.
\<close>

definition explore_result ::
  "(py_value \<Rightarrow> string) \<Rightarrow> nat \<Rightarrow> nat \<Rightarrow> py_error + py_value \<Rightarrow> run_state \<Rightarrow>
     (py_error + sql_error option) \<times> run_state" where
  "explore_result py_str i j outcome st =
     (let model = model_at st i;
          explore = explore_at st i j
      in case outcome of
           Inl e \<Rightarrow> (Inl e, st)
         | Inr result \<Rightarrow>
             if is_list result then (Inr None, st)
             else if is_dict result \<and> has_errors result then
               (case get_error_from_api_result result of
                  Inl e \<Rightarrow> (Inl e, st)
                | Inr error_params \<Rightarrow>
                    (let path = model_name model @ ''/'' @ explore_name explore;
                         error = \<lparr>err_path = path, err_sql = p_sql error_params,
                                  err_line_number = p_line_number error_params,
                                  err_message = p_message error_params, err_url = None\<rparr>
                     in (Inr (Some error),
                         update_model i
                           (\<lambda>m. (update_explore j
                                   (\<lambda>e. e\<lparr>explore_error := Some error, explore_errored := True\<rparr>) m)
                                 \<lparr>model_errored := True\<rparr>) st)))
             else (Inl (FonzException
                     (unexpected_message ''explore'' (model_name model) (explore_name explore)
                        (py_str result))), st))"

text \<open>\<open>_query_explore\<close>, run from its first statement to its last.\<close>

definition query_explore ::
  "client \<Rightarrow> (py_value \<Rightarrow> string) \<Rightarrow> nat \<Rightarrow> nat \<Rightarrow> run_state \<Rightarrow>
     (py_error + sql_error option) \<times> run_state" where
  "query_explore c py_str i j st =
     (let model = model_at st i;
          explore = explore_at st i j;
          dimensions = map dimension_name (explore_dimensions explore)
      in case run_async_query c (model_name model) (explore_name explore) dimensions st of
           (outcome, st1) \<Rightarrow> explore_result py_str i j outcome st1)"

text \<open>
  The part of \<open>_query_dimension\<close> that follows the \<open>await\<close>, for dimension \<open>k\<close>
  of explore \<open>j\<close> of model \<open>i\<close>.
\<close>

definition dimension_result ::
  "(py_value \<Rightarrow> string) \<Rightarrow> nat \<Rightarrow> nat \<Rightarrow> nat \<Rightarrow> py_error + py_value \<Rightarrow> run_state \<Rightarrow>
     (py_error + sql_error option) \<times> run_state" where
  "dimension_result py_str i j k outcome st =
     (let model = model_at st i;
          dimension = dimension_at st i j k
      in case outcome of
           Inl e \<Rightarrow> (Inl e, st)
         | Inr result \<Rightarrow>
             if is_list result then (Inr None, st)
             else if is_dict result \<and> has_errors result then
               (case get_error_from_api_result result of
                  Inl e \<Rightarrow> (Inl e, st)
                | Inr error_params \<Rightarrow>
                    (let path = model_name model @ ''/'' @ dimension_name dimension;
                         error = \<lparr>err_path = path, err_sql = p_sql error_params,
                                  err_line_number = p_line_number error_params,
                                  err_message = p_message error_params,
                                  err_url = Some (dimension_url dimension)\<rparr>
                     in (Inr (Some error),
                         update_model i
                           (\<lambda>m. (update_explore j
                                   (\<lambda>e. (update_dimension k
                                           (\<lambda>d. d\<lparr>dimension_error := Some error,
                                                  dimension_errored := True\<rparr>) e)
                                         \<lparr>explore_errored := True\<rparr>) m)
                                 \<lparr>model_errored := True\<rparr>) st)))
             else (Inl (FonzException
                     (unexpected_message ''dimension'' (model_name model)
                        (dimension_name dimension) (py_str result))), st))"

text \<open>\<open>_query_dimension\<close>, run from its first statement to its last.\<close>

definition query_dimension ::
  "client \<Rightarrow> (py_value \<Rightarrow> string) \<Rightarrow> nat \<Rightarrow> nat \<Rightarrow> nat \<Rightarrow> run_state \<Rightarrow>
     (py_error + sql_error option) \<times> run_state" where
  "query_dimension c py_str i j k st =
     (let model = model_at st i;
          explore = explore_at st i j;
          dimension = dimension_at st i j k
      in case run_async_query c (model_name model) (explore_name explore)
                [dimension_name dimension] st of
           (outcome, st1) \<Rightarrow> dimension_result py_str i j k outcome st1)"

section \<open>Validation\<close>

text \<open>
  A loop whose body may raise and whose results are collected by \<open>extend\<close>: the first
  exception ends the loop and is the outcome; the state keeps what was written before.
\<close>

fun for_each ::
  "('i \<Rightarrow> 's \<Rightarrow> (py_error + 'a list) \<times> 's) \<Rightarrow> 'i list \<Rightarrow> 's \<Rightarrow> (py_error + 'a list) \<times> 's" where
  "for_each body [] st = (Inr [], st)"
| "for_each body (x # xs) st =
     (case body x st of
        (Inl e, st1) \<Rightarrow> (Inl e, st1)
      | (Inr ys, st1) \<Rightarrow>
          (case for_each body xs st1 of
             (Inl e, st2) \<Rightarrow> (Inl e, st2)
           | (Inr zs, st2) \<Rightarrow> (Inr (ys @ zs), st2)))"

text \<open>
  The tasks \<open>_validate_explore\<close> creates: the coroutine \<open>_query_explore\<close> in batch
  mode, else one coroutine \<open>_query_dimension\<close> for each dimension of the explore.
  \<open>batch\<close> is whatever the caller passed; the \<open>if\<close> takes its truth value.
\<close>

datatype task = Query_explore | Query_dimension nat

definition create_tasks :: "py_value \<Rightarrow> explore \<Rightarrow> task list" where
  "create_tasks batch explore =
     (if truthy batch then [Query_explore]
      else map Query_dimension [0..<length (explore_dimensions explore)])"

text \<open>
  What a task does up to its \<open>await\<close>: it calls \<open>_run_async_query\<close> with these
  arguments. What it does when the outcome is there: the rest of its coroutine.
  \<open>answer\<close> is the outcome the client has for a query.
\<close>

fun task_query :: "run_state \<Rightarrow> nat \<Rightarrow> nat \<Rightarrow> task \<Rightarrow> query" where
  "task_query st i j Query_explore =
     (model_name (model_at st i), explore_name (explore_at st i j),
      map dimension_name (explore_dimensions (explore_at st i j)))"
| "task_query st i j (Query_dimension k) =
     (model_name (model_at st i), explore_name (explore_at st i j),
      [dimension_name (dimension_at st i j k)])"

fun task_result ::
  "(py_value \<Rightarrow> string) \<Rightarrow> nat \<Rightarrow> nat \<Rightarrow> task \<Rightarrow> py_error + py_value \<Rightarrow> run_state \<Rightarrow>
     (py_error + sql_error option) \<times> run_state" where
  "task_result py_str i j Query_explore outcome st = explore_result py_str i j outcome st"
| "task_result py_str i j (Query_dimension k) outcome st =
     dimension_result py_str i j k outcome st"

definition answer :: "client \<Rightarrow> query \<Rightarrow> py_error + py_value" where
  "answer c q =
     (case q of (model, explore, dimensions) \<Rightarrow> query_result c model explore dimensions)"

text \<open>
  The order in which \<open>n\<close> tasks complete. It depends on when the service answers:
  \<open>order\<close> names tasks in the order of their completion, and a task that it does not
  name completes after those, in the order of creation. Every order of the \<open>n\<close> tasks
  arises this way.
\<close>

definition completion_order :: "nat \<Rightarrow> nat list \<Rightarrow> nat list" where
  "completion_order n order =
     remdups (filter (\<lambda>t. t < n) order) @ filter (\<lambda>t. t \<notin> set order) [0..<n]"

text \<open>
  The tasks complete one at a time; \<open>finish t\<close> is what task \<open>t\<close> does when it
  completes. A result goes to the task's place among the results. The first task to
  raise ends the wait with its exception. No task is cancelled: the \<open>late\<close> tasks
  that complete next, before the event loop has stopped, still run to their end; what
  they return or raise is dropped, what they wrote stays.
\<close>

fun complete_late :: "(nat \<Rightarrow> 's \<Rightarrow> 'r \<times> 's) \<Rightarrow> nat list \<Rightarrow> 's \<Rightarrow> 's" where
  "complete_late finish [] st = st"
| "complete_late finish (t # ts) st = complete_late finish ts (snd (finish t st))"

fun complete ::
  "(nat \<Rightarrow> 's \<Rightarrow> (py_error + 'a) \<times> 's) \<Rightarrow> nat \<Rightarrow> nat list \<Rightarrow> 'a list \<Rightarrow> 's \<Rightarrow>
     (py_error + 'a list) \<times> 's" where
  "complete finish late [] results st = (Inr results, st)"
| "complete finish late (t # ts) results st =
     (case finish t st of
        (Inl e, st1) \<Rightarrow> (Inl e, complete_late finish (take late ts) st1)
      | (Inr r, st1) \<Rightarrow> complete finish late ts (results[t := r]) st1)"

text \<open>
  \<open>asyncio.gather\<close> on the tasks of one explore, under \<open>run_until_complete\<close>.
  All tasks were created before, so each of them is started and sends its query, in the
  order of creation, before any of them completes. Then they complete as described
  above, each with the answer to its own query; the results stand in the order of
  creation.
\<close>

definition gather ::
  "client \<Rightarrow> (py_value \<Rightarrow> string) \<Rightarrow> nat list \<Rightarrow> nat \<Rightarrow> nat \<Rightarrow> nat \<Rightarrow> task list \<Rightarrow> run_state \<Rightarrow>
     (py_error + sql_error option list) \<times> run_state" where
  "gather c py_str order late i j tasks st =
     (let queries = map (task_query st i j) tasks;
          started = st\<lparr>rs_queries := rs_queries st @ queries\<rparr>;
          finish = (\<lambda>t. task_result py_str i j (tasks ! t) (answer c (queries ! t)))
      in complete finish late (completion_order (length tasks) order)
           (replicate (length tasks) None) started)"

text \<open>
  \<open>_validate_explore\<close>: the errors among the results, \<open>None\<close> left out.
  \<open>schedule i j\<close> is the \<open>order\<close> and the \<open>late\<close> of the wait for explore
  \<open>j\<close> of model \<open>i\<close>.
\<close>

definition validate_explore ::
  "client \<Rightarrow> (py_value \<Rightarrow> string) \<Rightarrow> (nat \<Rightarrow> nat \<Rightarrow> nat list \<times> nat) \<Rightarrow> nat \<Rightarrow> nat \<Rightarrow>
     py_value \<Rightarrow> run_state \<Rightarrow> (py_error + sql_error list) \<times> run_state" where
  "validate_explore c py_str schedule i j batch st =
     (case gather c py_str (fst (schedule i j)) (snd (schedule i j)) i j
             (create_tasks batch (explore_at st i j)) st of
        (Inl e, st1) \<Rightarrow> (Inl e, st1)
      | (Inr validation_errors, st1) \<Rightarrow>
          (Inr (map the (filter (\<lambda>error. error \<noteq> None) validation_errors)), st1))"

text \<open>\<open>validate\<close>: every explore of every model of the project, in order.\<close>

definition validate_model ::
  "client \<Rightarrow> (py_value \<Rightarrow> string) \<Rightarrow> (nat \<Rightarrow> nat \<Rightarrow> nat list \<times> nat) \<Rightarrow> py_value \<Rightarrow> nat \<Rightarrow>
     run_state \<Rightarrow> (py_error + sql_error list) \<times> run_state" where
  "validate_model c py_str schedule batch i st =
     for_each (\<lambda>j. validate_explore c py_str schedule i j batch)
       [0..<length (model_explores (model_at st i))] st"

definition validate ::
  "client \<Rightarrow> (py_value \<Rightarrow> string) \<Rightarrow> (nat \<Rightarrow> nat \<Rightarrow> nat list \<times> nat) \<Rightarrow> py_value \<Rightarrow>
     run_state \<Rightarrow> (py_error + sql_error list) \<times> run_state" where
  "validate c py_str schedule batch st =
     for_each (validate_model c py_str schedule batch)
       [0..<length (project_models (rs_project st))] st"

section \<open>The runner\<close>





section \<open>Predicates for stating the properties\<close>

text \<open>
  A dimension of the hierarchy that stands for an entry of the dimension listing of its
  explore which is not ignored: it is not ignored itself, has the entry's name, and its
  URL is the entry's behind the base URL.
\<close>

definition from_listing :: "client \<Rightarrow> string \<Rightarrow> string \<Rightarrow> dimension \<Rightarrow> bool" where
  "from_listing c mname ename d =
     (\<not> dimension_ignore d \<and>
      (\<exists>dj\<in>set (get_dimensions c mname ename).
         \<not> dj_ignore dj \<and> dimension_name d = dj_name dj \<and>
         dimension_url d = base_url c @ dj_url dj))"

definition hierarchy_listed :: "client \<Rightarrow> project \<Rightarrow> bool" where
  "hierarchy_listed c p =
     (\<forall>m\<in>set (project_models p). \<forall>e\<in>set (model_explores m).
        \<forall>d\<in>set (explore_dimensions e). from_listing c (model_name m) (explore_name e) d)"

text \<open>A query that asks only for dimensions listed for its explore and not ignored.\<close>

definition query_listed :: "client \<Rightarrow> query \<Rightarrow> bool" where
  "query_listed c q =
     (case q of (mname, ename, names) \<Rightarrow>
        \<forall>n\<in>set names. \<exists>dj\<in>set (get_dimensions c mname ename). \<not> dj_ignore dj \<and> dj_name dj = n)"

text \<open>
  An error reported for an explore of the project, and an error reported for a dimension
  of the project that stands for a listed entry which is not ignored.
\<close>

definition explore_error_of :: "project \<Rightarrow> sql_error \<Rightarrow> bool" where
  "explore_error_of p error =
     (\<exists>m\<in>set (project_models p). \<exists>e\<in>set (model_explores m).
        err_path error = model_name m @ ''/'' @ explore_name e \<and> err_url error = None)"

definition dimension_error_of :: "client \<Rightarrow> project \<Rightarrow> sql_error \<Rightarrow> bool" where
  "dimension_error_of c p error =
     (\<exists>m\<in>set (project_models p). \<exists>e\<in>set (model_explores m).
        \<exists>d\<in>set (explore_dimensions e).
          from_listing c (model_name m) (explore_name e) d \<and>
          err_path error = model_name m @ ''/'' @ dimension_name d \<and>
          err_url error = Some (dimension_url d))"

text \<open>
  What validation never writes: the names in the hierarchy, and the URL and the
  \<open>ignore\<close> flag of every dimension.
\<close>

definition dimension_shape :: "dimension \<Rightarrow> string \<times> string \<times> bool" where
  "dimension_shape d = (dimension_name d, dimension_url d, dimension_ignore d)"

definition explore_shape :: "explore \<Rightarrow> string \<times> (string \<times> string \<times> bool) list" where
  "explore_shape e = (explore_name e, map dimension_shape (explore_dimensions e))"

definition model_shape ::
  "model \<Rightarrow> string \<times> (string \<times> (string \<times> string \<times> bool) list) list" where
  "model_shape m = (model_name m, map explore_shape (model_explores m))"

definition project_shape ::
  "project \<Rightarrow> (string \<times> (string \<times> (string \<times> string \<times> bool) list) list) list" where
  "project_shape p = map model_shape (project_models p)"

section \<open>Properties of selector parsing\<close>

lemma split_dot_not_Nil: "split_dot s \<noteq> []"
  by (induction s) (auto split: list.splits)

lemma length_split_dot: "length (split_dot s) = Suc (count_list s (CHR ''.''))"
  by (induction s) (auto split: list.splits simp: split_dot_not_Nil)

lemma split_dot_two:
  "(\<exists>model explore. split_dot s = [model, explore]) \<longleftrightarrow> length (split_dot s) = 2"
  by (auto simp: length_Suc_conv numeral_2_eq_2)

lemma parse_loop_ok:
  "\<forall>s\<in>set selectors. length (split_dot s) = 2 \<Longrightarrow>
     \<exists>selection'. parse_selectors_loop selection selectors = Inr selection'"
proof (induction selectors arbitrary: selection)
  case Nil
  then show ?case by simp
next
  case (Cons s ss)
  from Cons.prems have "length (split_dot s) = 2" by simp
  then obtain m e where "split_dot s = [m, e]" using split_dot_two by blast
  with Cons show ?case by simp
qed

lemma parse_loop_bad_head:
  assumes "length (split_dot s) \<noteq> 2"
  shows "parse_selectors_loop selection (s # ss) = Inl (FonzException (selector_message s))"
proof -
  have "\<not> (\<exists>model explore. split_dot s = [model, explore])"
    using assms split_dot_two by blast
  then show ?thesis by (auto split: list.splits)
qed

lemma parse_loop_fail:
  "\<not> (\<forall>s\<in>set selectors. length (split_dot s) = 2) \<Longrightarrow>
     parse_selectors_loop selection selectors =
       Inl (FonzException (selector_message
         (hd (filter (\<lambda>s. length (split_dot s) \<noteq> 2) selectors))))"
proof (induction selectors arbitrary: selection)
  case Nil
  then show ?case by simp
next
  case (Cons s ss)
  show ?case
  proof (cases "length (split_dot s) = 2")
    case True
    then obtain m e where "split_dot s = [m, e]" using split_dot_two by blast
    with True Cons show ?thesis by simp
  next
    case False
    then show ?thesis using parse_loop_bad_head [OF False] by simp
  qed
qed

lemma selector_message_names_selector:
  "sublist ([quote] @ s @ [quote]) (selector_message s)"
proof -
  have "selector_message s =
      ''Explore selector '' @ ([quote] @ s @ [quote]) @
        ('' is not valid.'' @ [newline] @
         ''Instead, use the format 'model_name.explore_name'. '' @
         ''Use 'model_name.*' to select all explores in a model.'')"
    by (simp add: selector_message_def quote_def)
  then show ?thesis
    using sublist_appendI by metis
qed

lemma selector_message_names_format:
  "sublist ''model_name.explore_name'' (selector_message s)"
proof -
  have "selector_message s =
      (''Explore selector '' @ [quote] @ s @ ''' is not valid.'' @ [newline] @
         ''Instead, use the format '' @ [quote]) @ ''model_name.explore_name'' @
         ([quote] @ ''. Use 'model_name.*' to select all explores in a model.'')"
    by (simp add: selector_message_def quote_def)
  then show ?thesis
    using sublist_appendI by metis
qed

text \<open>
  Claim C1, as the code has it. A selector is accepted exactly when it splits at its dots
  into two pieces, that is, when it has exactly one dot; the pieces may be empty. Parsing
  succeeds if every selector is accepted; otherwise it raises the \<open>FonzException\<close> for
  the first selector that is not, and the message of that exception holds the selector
  between quotes and the expected format \<open>model_name.explore_name\<close>.
\<close>

theorem parse_selectors_two_pieces:
  "(if \<forall>s\<in>set selectors. length (split_dot s) = 2
    then \<exists>selection. parse_selectors selectors = Inr selection
    else parse_selectors selectors =
           Inl (FonzException (selector_message
             (hd (filter (\<lambda>s. length (split_dot s) \<noteq> 2) selectors)))))
   \<and> length (split_dot s) = Suc (count_list s (CHR ''.''))
   \<and> sublist ([quote] @ s @ [quote]) (selector_message s)
   \<and> sublist ''model_name.explore_name'' (selector_message s)"
  using parse_loop_ok [of selectors "[]"] parse_loop_fail [of selectors "[]"]
    selector_message_names_selector [of s] selector_message_names_format [of s]
    length_split_dot [of s]
  unfolding parse_selectors_def by presburger

theorem parse_selectors_two_pieces_witness:
  "length (split_dot ''a.b'') = 2 \<and> length (split_dot ''c.*'') = 2
   \<and> (\<exists>selection. parse_selectors [''a.b'', ''c.*''] = Inr selection)
   \<and> length (split_dot ''bad_selector'') = 1 \<and> length (split_dot ''a.b.c'') = 3
   \<and> parse_selectors [''a.b'', ''bad_selector'', ''a.b.c''] =
       Inl (FonzException (selector_message ''bad_selector''))"
  using parse_selectors_two_pieces [of "[''a.b'', ''c.*'']"]
    parse_selectors_two_pieces [of "[''a.b'', ''bad_selector'', ''a.b.c'']"]
  by simp

text \<open>
  Claim C1 as stated fails: a selector with an empty piece on either side of its one dot
  is accepted, and the empty string becomes a model name or an explore name.
\<close>

theorem parse_selectors_empty_token_counterexample:
  "parse_selectors [''a.'', ''.x''] = Inr [(''a'', {[]}), ([], {''x''})]"
  by (simp add: parse_selectors_def selection_add_def)

section \<open>Properties of the selection\<close>

lemma select_nothing_missing:
  "choices \<subseteq> set (map name_of select_from) \<Longrightarrow>
     select set_order project class_name name_of choices select_from =
       Inr (filter (\<lambda>each. name_of each \<in> choices) select_from)"
  by (auto simp: select_def Let_def)

lemma select_missing:
  "\<not> choices \<subseteq> set (map name_of (first # rest)) \<Longrightarrow>
     select set_order project class_name name_of choices (first # rest) =
       Inl (FonzException (select_message set_order class_name
              (choices - set (map name_of (first # rest))) project))"
  by (auto simp: select_def Let_def)

lemma sublist_join: "x \<in> set xs \<Longrightarrow> sublist x (join sep xs)"
proof (induction sep xs rule: join.induct)
  case (1 sep)
  then show ?case by simp
next
  case (2 sep y)
  then show ?case by simp
next
  case (3 sep y z zs)
  show ?case
  proof (cases "x = y")
    case True
    have "sublist y ([] @ y @ (sep @ join sep (z # zs)))"
      by (rule sublist_appendI)
    with True show ?thesis by simp
  next
    case False
    with 3 have "sublist x (join sep (z # zs))" by simp
    then obtain ps ss where "join sep (z # zs) = ps @ x @ ss"
      by (auto simp: sublist_def)
    then have "join sep (y # z # zs) = (y @ sep @ ps) @ x @ ss" by simp
    then show ?thesis using sublist_appendI by metis
  qed
qed

lemma select_message_lists_missing:
  assumes "name \<in> set (set_order difference)"
  shows "sublist name (select_message set_order class_name difference project)"
proof -
  have "sublist name (join '', '' (set_order difference))"
    using assms by (rule sublist_join)
  then obtain ps ss where "join '', '' (set_order difference) = ps @ name @ ss"
    by (auto simp: sublist_def)
  then have "select_message set_order class_name difference project =
      (class_name @ (if card difference = 1 then [] else ''s'') @ '' '' @ ps) @ name @
      (ss @ '' not found in LookML for project '' @ [quote] @ project @ [quote] @ ''.'')"
    by (simp add: select_message_def)
  then show ?thesis
    using sublist_appendI by metis
qed

text \<open>
  With a non-empty list to select from, a selection that names something absent from it
  raises one \<open>FonzException\<close>; its message has the class name, in the plural unless
  exactly one name is missing, and every missing name that the iteration over the
  set of missing names yields.
\<close>

lemma select_reports_all_missing:
  assumes "select_from \<noteq> []"
    and "missing = choices - set (map name_of select_from)"
    and "missing \<noteq> {}"
    and "set (set_order missing) = missing"
  shows "select set_order project class_name name_of choices select_from =
           Inl (FonzException (select_message set_order class_name missing project))"
    and "\<forall>name\<in>missing. sublist name (select_message set_order class_name missing project)"
    and "prefix (class_name @ (if card missing = 1 then '' '' else ''s '')) 
           (select_message set_order class_name missing project)"
proof -
  from assms(1) obtain first rest where sf: "select_from = first # rest"
    by (cases select_from) auto
  from assms(2,3) have "\<not> choices \<subseteq> set (map name_of (first # rest))"
    unfolding sf by blast
  from select_missing [OF this] show
    "select set_order project class_name name_of choices select_from =
           Inl (FonzException (select_message set_order class_name missing project))"
    unfolding sf assms(2) by simp
  show "\<forall>name\<in>missing. sublist name (select_message set_order class_name missing project)"
    using select_message_lists_missing [of _ set_order missing class_name project] assms(4) by simp
  show "prefix (class_name @ (if card missing = 1 then '' '' else ''s '')) 
           (select_message set_order class_name missing project)"
    by (simp add: select_message_def)
qed

lemma model_project_from_json [simp]:
  "model_project (Model_from_json mj) = mj_project mj"
  "model_name (Model_from_json mj) = mj_name mj"
  "model_explores (Model_from_json mj) = map Explore_from_json (mj_explores mj)"
  by (simp_all add: Model_from_json_def)

lemma explore_name_from_json [simp]:
  "explore_name (Explore_from_json n) = n"
  "explore_dimensions (Explore_from_json n) = []"
  by (simp_all add: Explore_from_json_def)

lemma expand_models_no_models:
  "set (map fst (expand_models selection [])) = set (map fst selection) - {''*''}"
  by (auto simp: expand_models_def Let_def AList.delete_eq)

lemma select_on_empty:
  "choices \<noteq> {} \<Longrightarrow>
     select set_order project class_name name_of choices [] = Inl IndexError"
  by (simp add: select_def)

lemma build_project_no_models:
  assumes "parse_selectors selectors = Inr selection"
    and "name \<in> set (map fst selection)" and "name \<noteq> ''*''"
    and "filter (\<lambda>mj. mj_project mj = project_name self) (get_models c) = []"
  shows "build_project c set_order selectors self = Inl IndexError"
proof -
  have none: "filter (\<lambda>model. model_project model = project_name self)
          (map Model_from_json (get_models c)) = []"
    using assms(4) by (simp add: filter_map o_def)
  have "name \<in> set (map fst (expand_models selection []))"
    using assms(2,3) expand_models_no_models by simp
  then have "set (map fst (expand_models selection [])) \<noteq> {}" by auto
  then show ?thesis
    using assms(1) none
    by (simp add: build_project_def Let_def select_on_empty)
qed

text \<open>
  Claim C10. When the list to select from is empty and some name is chosen,
  \<open>_select\<close> does not reach its \<open>FonzException\<close>: building the message reads
  \<open>select_from[0]\<close> and the call ends with \<open>IndexError\<close>. \<open>build_project\<close>
  ends the same way when the selectors name a model (other than the wildcard) and model
  discovery yields no model of the project.
\<close>

theorem select_empty_available_index_error:
  "(choices \<noteq> {} \<longrightarrow>
      select set_order project class_name name_of choices [] = Inl IndexError)
   \<and> (parse_selectors selectors = Inr selection
        \<and> name \<in> set (map fst selection) \<and> name \<noteq> ''*''
        \<and> filter (\<lambda>mj. mj_project mj = project_name self) (get_models c) = []
      \<longrightarrow> build_project c set_order selectors self = Inl IndexError)"
proof (intro conjI impI)
  assume "choices \<noteq> {}"
  then show "select set_order project class_name name_of choices [] = Inl IndexError"
    by (rule select_on_empty)
next
  assume "parse_selectors selectors = Inr selection
        \<and> name \<in> set (map fst selection) \<and> name \<noteq> ''*''
        \<and> filter (\<lambda>mj. mj_project mj = project_name self) (get_models c) = []"
  then show "build_project c set_order selectors self = Inl IndexError"
    by (elim conjE) (rule build_project_no_models)
qed

theorem select_empty_available_index_error_witness:
  "{''zzz''} \<noteq> ({} :: string set)
   \<and> select (\<lambda>S. [''zzz'']) ''p'' ''Model'' model_name {''zzz''} [] = Inl IndexError
   \<and> parse_selectors [''zzz.x''] = Inr [(''zzz'', {''x''})]
   \<and> build_project
        \<lparr>base_url = ''u'', get_models = [], get_dimensions = (\<lambda>m e. []),
         query_result = (\<lambda>m e ds. Inr (PyList []))\<rparr>
        (\<lambda>S. [''zzz'']) [''zzz.x''] (SqlValidator_init ''p'') = Inl IndexError"
  using select_empty_available_index_error
    [of "{''zzz''}" "\<lambda>S. [''zzz'']" "''p''" "''Model''" model_name
        "[''zzz.x'']" "[(''zzz'', {''x''})]" "''zzz''" "SqlValidator_init ''p''"
        "\<lparr>base_url = ''u'', get_models = [], get_dimensions = (\<lambda>m e. []),
         query_result = (\<lambda>m e ds. Inr (PyList []))\<rparr>"]
  by (simp add: parse_selectors_def selection_add_def)

text \<open>
  Claim C4 fails on an empty list of available names. With a model \<open>a\<close> that has no
  explores, the selector \<open>a.x\<close> ends the build with \<open>IndexError\<close>, and so does
  the selector \<open>zzz.x\<close> when no model is discovered; the \<open>FonzException\<close> that
  names the missing entity is raised only when something is available, as for
  \<open>zzz.x\<close> against the discovered model \<open>a\<close>.
\<close>

theorem build_project_missing_name_index_error:
  "build_project
     \<lparr>base_url = ''u'',
      get_models = [\<lparr>mj_name = ''a'', mj_project = ''p'', mj_explores = []\<rparr>],
      get_dimensions = (\<lambda>m e. []), query_result = (\<lambda>m e ds. Inr (PyList []))\<rparr>
     (\<lambda>S. [''x'']) [''a.x''] (SqlValidator_init ''p'') = Inl IndexError
   \<and> build_project
     \<lparr>base_url = ''u'', get_models = [],
      get_dimensions = (\<lambda>m e. []), query_result = (\<lambda>m e ds. Inr (PyList []))\<rparr>
     (\<lambda>S. [''zzz'']) [''zzz.x''] (SqlValidator_init ''p'') = Inl IndexError
   \<and> build_project
     \<lparr>base_url = ''u'',
      get_models = [\<lparr>mj_name = ''a'', mj_project = ''p'', mj_explores = []\<rparr>],
      get_dimensions = (\<lambda>m e. []), query_result = (\<lambda>m e ds. Inr (PyList []))\<rparr>
     (\<lambda>S. [''zzz'']) [''zzz.x''] (SqlValidator_init ''p'') =
       Inl (FonzException ''Model zzz not found in LookML for project 'p'.'')"
  by code_simp


section \<open>Properties of the hierarchy builder\<close>

lemma load_dimensions_fold:
  "fold (\<lambda>dimension_json e.
           (let dimension = Dimension_from_json dimension_json;
                dimension' = dimension\<lparr>dimension_url := base_url c @ dimension_url dimension\<rparr>
            in if \<not> dimension_ignore dimension' then add_dimension dimension' e else e))
     djs e =
   e\<lparr>explore_dimensions := explore_dimensions e @
        map (\<lambda>dj. (Dimension_from_json dj)\<lparr>dimension_url := base_url c @ dj_url dj\<rparr>)
          (filter (\<lambda>dj. \<not> dj_ignore dj) djs)\<rparr>"
  by (induction djs arbitrary: e)
     (simp_all add: Let_def add_dimension_def Dimension_from_json_def)

lemma load_dimensions_eq:
  "load_dimensions c mname e =
     e\<lparr>explore_dimensions := explore_dimensions e @
          map (\<lambda>dj. (Dimension_from_json dj)\<lparr>dimension_url := base_url c @ dj_url dj\<rparr>)
            (filter (\<lambda>dj. \<not> dj_ignore dj) (get_dimensions c mname (explore_name e)))\<rparr>"
  unfolding load_dimensions_def by (rule load_dimensions_fold)

lemma explore_name_load_dimensions [simp]:
  "explore_name (load_dimensions c mname e) = explore_name e"
  by (simp add: load_dimensions_eq)

lemma parse_loop_a:
  "set sels \<subseteq> {''a.*'', ''a.x''} \<Longrightarrow>
     parse_selectors_loop [(''a'', S)] sels = Inr [(''a'', S \<union> drop 2 ` set sels)]"
proof (induction sels arbitrary: S)
  case Nil
  then show ?case by simp
next
  case (Cons s sels)
  from Cons.prems have "s = ''a.*'' \<or> s = ''a.x''" by simp
  then have step: "split_dot s = [''a'', drop 2 s]" by auto
  from Cons.prems have "set sels \<subseteq> {''a.*'', ''a.x''}" by simp
  from Cons.IH [OF this] show ?case
    by (simp add: step selection_add_def)
qed

lemma parse_selectors_a:
  assumes "set sels = {''a.*'', ''a.x''}"
  shows "parse_selectors sels = Inr [(''a'', {''*'', ''x''})]"
proof (cases sels)
  case Nil
  with assms show ?thesis by simp
next
  case (Cons s rest)
  from assms Cons have "s = ''a.*'' \<or> s = ''a.x''" by auto
  then have step: "split_dot s = [''a'', drop 2 s]" by auto
  from assms Cons have "set rest \<subseteq> {''a.*'', ''a.x''}" by auto
  from parse_loop_a [OF this, of "{drop 2 s}"]
  have "parse_selectors sels = Inr [(''a'', drop 2 ` set sels)]"
    by (simp add: parse_selectors_def Cons step selection_add_def)
  moreover have "drop 2 ` set sels = {''*'', ''x''}"
    unfolding assms by simp
  ultimately show ?thesis by simp
qed

lemma build_project_a:
  assumes "parse_selectors selectors = Inr [(''a'', {''*'', ''x''})]"
    and "get_models c =
           [\<lparr>mj_name = ''a'', mj_project = project_name self, mj_explores = [''x'', ''y'']\<rparr>]"
  shows "build_project c set_order selectors self =
           Inr (self\<lparr>project_models :=
             [\<lparr>model_name = ''a'', model_project = project_name self,
               model_explores = map (load_dimensions c ''a'')
                 [Explore_from_json ''x'', Explore_from_json ''y''],
               model_errored = False\<rparr>]\<rparr>)"
proof -
  have exp: "expand_explores {''*'', ''x''}
      [Explore_from_json ''x'', Explore_from_json ''y''] = {''x'', ''y''}"
    by (auto simp: expand_explores_def)
  have sel: "select set_order (project_name self) ''Explore'' explore_name {''x'', ''y''}
      [Explore_from_json ''x'', Explore_from_json ''y''] =
      Inr [Explore_from_json ''x'', Explore_from_json ''y'']"
    by (simp add: select_def)
  have models: "filter (\<lambda>model. model_project model = project_name self)
      (map Model_from_json (get_models c)) =
      [\<lparr>model_name = ''a'', model_project = project_name self,
        model_explores = [Explore_from_json ''x'', Explore_from_json ''y''],
        model_errored = False\<rparr>]"
    by (simp add: assms(2) Model_from_json_def)
  have msel: "select set_order (project_name self) ''Model'' model_name {''a''}
      [\<lparr>model_name = ''a'', model_project = project_name self,
        model_explores = [Explore_from_json ''x'', Explore_from_json ''y''],
        model_errored = False\<rparr>] =
      Inr [\<lparr>model_name = ''a'', model_project = project_name self,
        model_explores = [Explore_from_json ''x'', Explore_from_json ''y''],
        model_errored = False\<rparr>]"
    by (simp add: select_def)
  have expm: "expand_models [(''a'', {''*'', ''x''})] ms = [(''a'', {''*'', ''x''})]" for ms
    by (simp add: expand_models_def)
  show ?thesis
    by (simp add: build_project_def assms(1) models Let_def expm msel selection_get_def exp sel)
qed

text \<open>
  Claim C5. Whatever the order and the repetitions in which the selectors \<open>a.*\<close> and
  \<open>a.x\<close> are supplied, the selection is the model \<open>a\<close> with the explore names
  \<open>*\<close> and \<open>x\<close>; for a model \<open>a\<close> whose discovered explores are \<open>x\<close> and
  \<open>y\<close> the wildcard is replaced so that the explore names are \<open>x\<close> and \<open>y\<close>,
  and the built project has the model \<open>a\<close> with exactly the explores \<open>x\<close> and
  \<open>y\<close>; it is the project built from the selectors \<open>a.*\<close>, \<open>a.x\<close>.
\<close>

theorem wildcard_absorbs_explicit_explore:
  assumes "set selectors = {''a.*'', ''a.x''}"
    and "get_models c =
           [\<lparr>mj_name = ''a'', mj_project = project_name self, mj_explores = [''x'', ''y'']\<rparr>]"
  shows "parse_selectors selectors = Inr [(''a'', {''*'', ''x''})]
    \<and> expand_explores {''*'', ''x''} (map Explore_from_json [''x'', ''y'']) = {''x'', ''y''}
    \<and> (\<exists>built. build_project c set_order selectors self = Inr built
          \<and> map (\<lambda>m. (model_name m, map explore_name (model_explores m)))
                (project_models built) = [(''a'', [''x'', ''y''])])
    \<and> build_project c set_order selectors self =
        build_project c set_order [''a.*'', ''a.x''] self"
proof -
  have p1: "parse_selectors selectors = Inr [(''a'', {''*'', ''x''})]"
    using assms(1) by (rule parse_selectors_a)
  have p2: "parse_selectors [''a.*'', ''a.x''] = Inr [(''a'', {''*'', ''x''})]"
    by (rule parse_selectors_a) simp
  have exp: "expand_explores {''*'', ''x''} (map Explore_from_json [''x'', ''y'']) = {''x'', ''y''}"
    by (auto simp: expand_explores_def)
  note b1 = build_project_a [OF p1 assms(2), of set_order]
  note b2 = build_project_a [OF p2 assms(2), of set_order]
  have names: "map (\<lambda>m. (model_name m, map explore_name (model_explores m)))
      (project_models (self\<lparr>project_models :=
             [\<lparr>model_name = ''a'', model_project = project_name self,
               model_explores = map (load_dimensions c ''a'')
                 [Explore_from_json ''x'', Explore_from_json ''y''],
               model_errored = False\<rparr>]\<rparr>)) = [(''a'', [''x'', ''y''])]"
    by simp
  show ?thesis
    using p1 exp b1 b2 names by simp
qed

theorem wildcard_absorbs_explicit_explore_witness:
  "set [''a.x'', ''a.*'', ''a.x''] = {''a.*'', ''a.x''}
   \<and> (\<exists>built. build_project
        \<lparr>base_url = ''u'',
         get_models = [\<lparr>mj_name = ''a'', mj_project = ''p'', mj_explores = [''x'', ''y'']\<rparr>],
         get_dimensions = (\<lambda>m e. []), query_result = (\<lambda>m e ds. Inr (PyList []))\<rparr>
        (\<lambda>S. []) [''a.x'', ''a.*'', ''a.x''] (SqlValidator_init ''p'') = Inr built
      \<and> map (\<lambda>m. (model_name m, map explore_name (model_explores m)))
            (project_models built) = [(''a'', [''x'', ''y''])])"
  using wildcard_absorbs_explicit_explore
    [of "[''a.x'', ''a.*'', ''a.x'']"
        "\<lparr>base_url = ''u'',
         get_models = [\<lparr>mj_name = ''a'', mj_project = ''p'', mj_explores = [''x'', ''y'']\<rparr>],
         get_dimensions = (\<lambda>m e. []), query_result = (\<lambda>m e ds. Inr (PyList []))\<rparr>"
        "SqlValidator_init ''p''" "\<lambda>S. []"]
  by (auto simp: SqlValidator_init_def)

section \<open>Properties of the completion of tasks\<close>

lemma completion_order_set: "set (completion_order n order) = {0..<n}"
  by (auto simp: completion_order_def)

lemma completion_order_distinct: "distinct (completion_order n order)"
  by (auto simp: completion_order_def)

lemma completion_order_permutation:
  "distinct order \<Longrightarrow> set order = {0..<n} \<Longrightarrow> completion_order n order = order"
proof -
  assume d: "distinct order" and s: "set order = {0..<n}"
  have "filter (\<lambda>t. t < n) order = order" using s by (auto simp: filter_id_conv)
  moreover have "filter (\<lambda>t. t \<notin> set order) [0..<n] = []" using s by (auto simp: filter_empty_conv)
  ultimately show ?thesis using d by (simp add: completion_order_def)
qed

lemma completion_order_one: "completion_order (Suc 0) order = [0]"
proof -
  have d: "distinct (completion_order (Suc 0) order)" by (rule completion_order_distinct)
  have s: "set (completion_order (Suc 0) order) = {0}"
    by (simp add: completion_order_set)
  from d have "length (completion_order (Suc 0) order) = card (set (completion_order (Suc 0) order))"
    by (simp add: distinct_card)
  with s have "length (completion_order (Suc 0) order) = 1" by simp
  then obtain x where x: "completion_order (Suc 0) order = [x]"
    by (auto simp: length_Suc_conv)
  with s show ?thesis by simp
qed

lemma complete_prefix:
  "complete finish late xs results st = (Inr results', st') \<Longrightarrow>
     complete finish late (xs @ ys) results st = complete finish late ys results' st'"
  by (induction xs arbitrary: results st) (auto split: prod.splits sum.splits)

section \<open>Properties of one query\<close>

lemma model_at_update_model:
  "i < length (project_models (rs_project st)) \<Longrightarrow>
     model_at (update_model i f st) i = f (model_at st i)"
  "i' \<noteq> i \<Longrightarrow> model_at (update_model i f st) i' = model_at st i'"
  by (simp_all add: model_at_def update_model_def)

lemma rs_queries_update_model [simp]:
  "rs_queries (update_model i f st) = rs_queries st"
  by (simp add: update_model_def)

lemma project_update_model [simp]:
  "project_name (rs_project (update_model i f st)) = project_name (rs_project st)"
  "length (project_models (rs_project (update_model i f st))) =
     length (project_models (rs_project st))"
  by (simp_all add: update_model_def)

lemma run_async_query_eq:
  "run_async_query c m e ds st =
     (query_result c m e ds, st\<lparr>rs_queries := rs_queries st @ [(m, e, ds)]\<rparr>)"
  by (simp add: run_async_query_def)

lemma model_at_log [simp]:
  "model_at (st\<lparr>rs_queries := qs\<rparr>) i = model_at st i"
  by (simp add: model_at_def)

lemma explore_at_log [simp]:
  "explore_at (st\<lparr>rs_queries := qs\<rparr>) i j = explore_at st i j"
  by (simp add: explore_at_def)

lemma dimension_at_log [simp]:
  "dimension_at (st\<lparr>rs_queries := qs\<rparr>) i j k = dimension_at st i j k"
  by (simp add: dimension_at_def)

lemma is_dict_not_list: "is_dict result \<Longrightarrow> \<not> is_list result"
  by (cases result) simp_all

lemma query_dimension_error:
  assumes "query_result c (model_name (model_at st i)) (explore_name (explore_at st i j))
             [dimension_name (dimension_at st i j k)] = Inr result"
    and "is_dict result" and "has_errors result"
    and "get_error_from_api_result result = Inr params"
  shows "query_dimension c py_str i j k st =
    (Inr (Some \<lparr>err_path = model_name (model_at st i) @ ''/'' @
                   dimension_name (dimension_at st i j k),
                 err_sql = p_sql params, err_line_number = p_line_number params,
                 err_message = p_message params,
                 err_url = Some (dimension_url (dimension_at st i j k))\<rparr>),
     update_model i
       (\<lambda>m. (update_explore j
               (\<lambda>e. (update_dimension k
                       (\<lambda>d. d\<lparr>dimension_error := Some
                          \<lparr>err_path = model_name (model_at st i) @ ''/'' @
                             dimension_name (dimension_at st i j k),
                           err_sql = p_sql params, err_line_number = p_line_number params,
                           err_message = p_message params,
                           err_url = Some (dimension_url (dimension_at st i j k))\<rparr>,
                         dimension_errored := True\<rparr>) e)
                     \<lparr>explore_errored := True\<rparr>) m)
             \<lparr>model_errored := True\<rparr>)
       (st\<lparr>rs_queries := rs_queries st @
          [(model_name (model_at st i), explore_name (explore_at st i j),
            [dimension_name (dimension_at st i j k)])]\<rparr>))"
  using assms is_dict_not_list [OF assms(2)]
  by (simp add: query_dimension_def dimension_result_def run_async_query_eq Let_def)

lemma query_explore_error:
  assumes "query_result c (model_name (model_at st i)) (explore_name (explore_at st i j))
             (map dimension_name (explore_dimensions (explore_at st i j))) = Inr result"
    and "is_dict result" and "has_errors result"
    and "get_error_from_api_result result = Inr params"
  shows "query_explore c py_str i j st =
    (Inr (Some \<lparr>err_path = model_name (model_at st i) @ ''/'' @
                   explore_name (explore_at st i j),
                 err_sql = p_sql params, err_line_number = p_line_number params,
                 err_message = p_message params, err_url = None\<rparr>),
     update_model i
       (\<lambda>m. (update_explore j
               (\<lambda>e. e\<lparr>explore_error := Some
                          \<lparr>err_path = model_name (model_at st i) @ ''/'' @
                             explore_name (explore_at st i j),
                           err_sql = p_sql params, err_line_number = p_line_number params,
                           err_message = p_message params, err_url = None\<rparr>,
                     explore_errored := True\<rparr>) m)
             \<lparr>model_errored := True\<rparr>)
       (st\<lparr>rs_queries := rs_queries st @
          [(model_name (model_at st i), explore_name (explore_at st i j),
            map dimension_name (explore_dimensions (explore_at st i j)))]\<rparr>))"
  using assms is_dict_not_list [OF assms(2)]
  by (simp add: query_explore_def explore_result_def run_async_query_eq Let_def)


text \<open>
  Claim C3. When the query for dimension \<open>k\<close> of explore \<open>j\<close> of model \<open>i\<close>
  comes back as a dictionary with errors from which the error can be extracted,
  \<open>_query_dimension\<close> returns a \<open>SqlError\<close> whose path is the model name and the
  dimension name joined by a slash; the error is attached to that dimension, and
  \<open>errored\<close> is set on that dimension, on its explore and on its model. Every other
  dimension of the explore, every other explore of the model and every other model of the
  project are as before, and the three nodes themselves change in nothing else.
\<close>

theorem query_dimension_error_frame:
  assumes "i < length (project_models (rs_project st))"
    and "j < length (model_explores (model_at st i))"
    and "k < length (explore_dimensions (explore_at st i j))"
    and "query_result c (model_name (model_at st i)) (explore_name (explore_at st i j))
           [dimension_name (dimension_at st i j k)] = Inr result"
    and "is_dict result" and "has_errors result"
    and "get_error_from_api_result result = Inr params"
  shows "\<exists>error st'.
      query_dimension c py_str i j k st = (Inr (Some error), st')
    \<and> err_path error =
        model_name (model_at st i) @ ''/'' @ dimension_name (dimension_at st i j k)
    \<and> dimension_at st' i j k =
        (dimension_at st i j k)\<lparr>dimension_error := Some error, dimension_errored := True\<rparr>
    \<and> explore_at st' i j =
        (explore_at st i j)\<lparr>explore_dimensions :=
            (explore_dimensions (explore_at st i j))[k := dimension_at st' i j k],
          explore_errored := True\<rparr>
    \<and> model_at st' i =
        (model_at st i)\<lparr>model_explores :=
            (model_explores (model_at st i))[j := explore_at st' i j],
          model_errored := True\<rparr>
    \<and> dimension_errored (dimension_at st' i j k)
    \<and> explore_errored (explore_at st' i j)
    \<and> model_errored (model_at st' i)
    \<and> (\<forall>k'. k' \<noteq> k \<longrightarrow> dimension_at st' i j k' = dimension_at st i j k')
    \<and> (\<forall>j'. j' \<noteq> j \<longrightarrow> explore_at st' i j' = explore_at st i j')
    \<and> (\<forall>i'. i' \<noteq> i \<longrightarrow> model_at st' i' = model_at st i')
    \<and> rs_project st' =
        (rs_project st)\<lparr>project_models :=
            (project_models (rs_project st))[i := model_at st' i]\<rparr>"
proof -
  define error where "error =
     \<lparr>err_path = model_name (model_at st i) @ ''/'' @ dimension_name (dimension_at st i j k),
      err_sql = p_sql params, err_line_number = p_line_number params,
      err_message = p_message params,
      err_url = Some (dimension_url (dimension_at st i j k))\<rparr>"
  define st' where "st' = update_model i
       (\<lambda>m. (update_explore j
               (\<lambda>e. (update_dimension k
                       (\<lambda>d. d\<lparr>dimension_error := Some error,
                         dimension_errored := True\<rparr>) e)
                     \<lparr>explore_errored := True\<rparr>) m)
             \<lparr>model_errored := True\<rparr>)
       (st\<lparr>rs_queries := rs_queries st @
          [(model_name (model_at st i), explore_name (explore_at st i j),
            [dimension_name (dimension_at st i j k)])]\<rparr>)"
  have run: "query_dimension c py_str i j k st = (Inr (Some error), st')"
    unfolding st'_def error_def using assms(4-7) by (rule query_dimension_error)
  have path: "err_path error =
      model_name (model_at st i) @ ''/'' @ dimension_name (dimension_at st i j k)"
    by (simp add: error_def)
  have d: "dimension_at st' i j k =
      (dimension_at st i j k)\<lparr>dimension_error := Some error, dimension_errored := True\<rparr>"
    using assms(1-3)
    by (simp add: st'_def dimension_at_def explore_at_def model_at_def update_model_def
        update_explore_def update_dimension_def)
  have e: "explore_at st' i j =
      (explore_at st i j)\<lparr>explore_dimensions :=
          (explore_dimensions (explore_at st i j))[k := dimension_at st' i j k],
        explore_errored := True\<rparr>"
    using assms(1-3)
    by (simp add: st'_def dimension_at_def explore_at_def model_at_def update_model_def
        update_explore_def update_dimension_def)
  have m: "model_at st' i =
      (model_at st i)\<lparr>model_explores :=
          (model_explores (model_at st i))[j := explore_at st' i j],
        model_errored := True\<rparr>"
    using assms(1-3)
    by (simp add: st'_def explore_at_def model_at_def update_model_def update_explore_def)
  have flags: "dimension_errored (dimension_at st' i j k)"
    "explore_errored (explore_at st' i j)" "model_errored (model_at st' i)"
    by (simp_all add: d e m)
  have dims: "\<forall>k'. k' \<noteq> k \<longrightarrow> dimension_at st' i j k' = dimension_at st i j k'"
    using assms(1-3)
    by (simp add: st'_def dimension_at_def explore_at_def model_at_def update_model_def
        update_explore_def update_dimension_def)
  have explores: "\<forall>j'. j' \<noteq> j \<longrightarrow> explore_at st' i j' = explore_at st i j'"
    using assms(1-3)
    by (simp add: st'_def explore_at_def model_at_def update_model_def update_explore_def)
  have models: "\<forall>i'. i' \<noteq> i \<longrightarrow> model_at st' i' = model_at st i'"
    by (simp add: st'_def model_at_update_model)
  have proj: "rs_project st' =
      (rs_project st)\<lparr>project_models :=
          (project_models (rs_project st))[i := model_at st' i]\<rparr>"
    using assms(1) by (simp add: st'_def model_at_def update_model_def)
  show ?thesis
    by (intro exI [of _ error] exI [of _ st'] conjI
        run path d e m flags dims explores models proj)
qed


theorem query_dimension_error_frame_witness:
  "\<exists>error st'.
      query_dimension
        \<lparr>base_url = ''u'', get_models = [], get_dimensions = (\<lambda>m e. []),
         query_result = (\<lambda>m e ds. Inr (PyDict
           [(''errors'', PyList [PyDict [(''message_details'', PyStr ''boom'')]]),
            (''sql'', PyStr ''SELECT 1'')]))\<rparr>
        (\<lambda>v. []) 0 0 1
        \<lparr>rs_project = \<lparr>project_name = ''p'', project_models =
           [\<lparr>model_name = ''m'', model_project = ''p'', model_explores =
              [\<lparr>explore_name = ''e'', explore_dimensions =
                 [\<lparr>dimension_name = ''d0'', dimension_url = ''u0'', dimension_ignore = False,
                   dimension_errored = False, dimension_error = None\<rparr>,
                  \<lparr>dimension_name = ''d1'', dimension_url = ''u1'', dimension_ignore = False,
                   dimension_errored = False, dimension_error = None\<rparr>],
                explore_errored = False, explore_error = None\<rparr>],
             model_errored = False\<rparr>]\<rparr>,
         rs_queries = []\<rparr> = (Inr (Some error), st')
    \<and> err_path error = ''m/d1''
    \<and> dimension_errored (dimension_at st' 0 0 1)
    \<and> explore_errored (explore_at st' 0 0)
    \<and> model_errored (model_at st' 0)
    \<and> \<not> dimension_errored (dimension_at st' 0 0 0)"
proof -
  define c where "c = \<lparr>base_url = ''u'', get_models = [], get_dimensions = (\<lambda>m e. []),
         query_result = (\<lambda>m e ds. Inr (PyDict
           [(''errors'', PyList [PyDict [(''message_details'', PyStr ''boom'')]]),
            (''sql'', PyStr ''SELECT 1'')]))\<rparr>"
  define st where "st = \<lparr>rs_project = \<lparr>project_name = ''p'', project_models =
           [\<lparr>model_name = ''m'', model_project = ''p'', model_explores =
              [\<lparr>explore_name = ''e'', explore_dimensions =
                 [\<lparr>dimension_name = ''d0'', dimension_url = ''u0'', dimension_ignore = False,
                   dimension_errored = False, dimension_error = None\<rparr>,
                  \<lparr>dimension_name = ''d1'', dimension_url = ''u1'', dimension_ignore = False,
                   dimension_errored = False, dimension_error = None\<rparr>],
                explore_errored = False, explore_error = None\<rparr>],
             model_errored = False\<rparr>]\<rparr>,
         rs_queries = []\<rparr>"
  define result where "result = PyDict
           [(''errors'', PyList [PyDict [(''message_details'', PyStr ''boom'')]]),
            (''sql'', PyStr ''SELECT 1'')]"
  have h1: "0 < length (project_models (rs_project st))"
    by (simp add: st_def)
  have h2: "0 < length (model_explores (model_at st 0))"
    by (simp add: st_def model_at_def)
  have h3: "1 < length (explore_dimensions (explore_at st 0 0))"
    by (simp add: st_def model_at_def explore_at_def)
  have h4: "query_result c (model_name (model_at st 0)) (explore_name (explore_at st 0 0))
           [dimension_name (dimension_at st 0 0 1)] = Inr result"
    by (simp add: c_def result_def)
  have h5: "is_dict result" by (simp add: result_def)
  have h6: "has_errors result" by (simp add: result_def has_errors_def dict_get_def)
  have h7: "get_error_from_api_result result =
      Inr \<lparr>p_sql = PyStr ''SELECT 1'', p_line_number = None, p_message = PyStr ''boom''\<rparr>"
    by (simp add: result_def get_error_from_api_result_def error_line_number_def dict_get_def)
  from query_dimension_error_frame [OF h1 h2 h3 h4 h5 h6 h7, of "\<lambda>v. []"]
  obtain error st' where
    run: "query_dimension c (\<lambda>v. []) 0 0 1 st = (Inr (Some error), st')"
    and path: "err_path error =
        model_name (model_at st 0) @ ''/'' @ dimension_name (dimension_at st 0 0 1)"
    and flags: "dimension_errored (dimension_at st' 0 0 1)"
      "explore_errored (explore_at st' 0 0)" "model_errored (model_at st' 0)"
    and others: "\<forall>k'. k' \<noteq> 1 \<longrightarrow> dimension_at st' 0 0 k' = dimension_at st 0 0 k'"
    by blast
  have p: "err_path error = ''m/d1''"
    using path by (simp add: st_def model_at_def explore_at_def dimension_at_def)
  have "dimension_at st' 0 0 0 = dimension_at st 0 0 0"
    using others by simp
  then have sibling: "\<not> dimension_errored (dimension_at st' 0 0 0)"
    by (simp add: st_def model_at_def explore_at_def dimension_at_def)
  show ?thesis
    using run p flags sibling unfolding c_def st_def by blast
qed

section \<open>Properties of the validation of one explore\<close>

lemma query_explore_task:
  "query_explore c py_str i j st =
     task_result py_str i j Query_explore (answer c (task_query st i j Query_explore))
       (st\<lparr>rs_queries := rs_queries st @ [task_query st i j Query_explore]\<rparr>)"
  by (simp add: query_explore_def run_async_query_eq Let_def answer_def)

lemma query_dimension_task:
  "query_dimension c py_str i j k st =
     task_result py_str i j (Query_dimension k) (answer c (task_query st i j (Query_dimension k)))
       (st\<lparr>rs_queries := rs_queries st @ [task_query st i j (Query_dimension k)]\<rparr>)"
  by (simp add: query_dimension_def run_async_query_eq Let_def answer_def)

lemma gather_one:
  "gather c py_str order late i j [task] st =
     (case task_result py_str i j task (answer c (task_query st i j task))
             (st\<lparr>rs_queries := rs_queries st @ [task_query st i j task]\<rparr>) of
        (Inl e, st1) \<Rightarrow> (Inl e, st1)
      | (Inr r, st1) \<Rightarrow> (Inr [r], st1))"
  by (simp add: gather_def Let_def completion_order_one split: prod.splits sum.splits)

lemma validate_explore_batch:
  assumes "truthy batch"
  shows "validate_explore c py_str schedule i j batch st =
    (case query_explore c py_str i j st of
       (Inl e, st1) \<Rightarrow> (Inl e, st1)
     | (Inr None, st1) \<Rightarrow> (Inr [], st1)
     | (Inr (Some error), st1) \<Rightarrow> (Inr [error], st1))"
  using assms
  by (simp add: validate_explore_def create_tasks_def gather_one query_explore_task
      split: prod.splits sum.splits option.splits)

text \<open>
  Claim C2. In batch mode, when the one query for explore \<open>j\<close> of model \<open>i\<close> comes
  back as a dictionary with errors from which the error can be extracted,
  \<open>_validate_explore\<close> sends that one query and returns exactly one \<open>SqlError\<close>;
  its path is the model name and the explore name joined by a slash; it is attached to
  the explore, \<open>errored\<close> is set on the explore and on its model, and the list of
  dimensions of every explore of the project, with their flags and errors, is as before.
\<close>

theorem batch_error_on_explore:
  assumes "i < length (project_models (rs_project st))"
    and "j < length (model_explores (model_at st i))"
    and "truthy batch"
    and "query_result c (model_name (model_at st i)) (explore_name (explore_at st i j))
           (map dimension_name (explore_dimensions (explore_at st i j))) = Inr result"
    and "is_dict result" and "has_errors result"
    and "get_error_from_api_result result = Inr params"
  shows "\<exists>error st'.
      validate_explore c py_str schedule i j batch st = (Inr [error], st')
    \<and> err_path error = model_name (model_at st i) @ ''/'' @ explore_name (explore_at st i j)
    \<and> explore_at st' i j =
        (explore_at st i j)\<lparr>explore_error := Some error, explore_errored := True\<rparr>
    \<and> model_at st' i =
        (model_at st i)\<lparr>model_explores :=
            (model_explores (model_at st i))[j := explore_at st' i j],
          model_errored := True\<rparr>
    \<and> explore_errored (explore_at st' i j)
    \<and> model_errored (model_at st' i)
    \<and> (\<forall>i' j'. explore_dimensions (explore_at st' i' j') =
                  explore_dimensions (explore_at st i' j'))
    \<and> rs_queries st' = rs_queries st @
         [(model_name (model_at st i), explore_name (explore_at st i j),
           map dimension_name (explore_dimensions (explore_at st i j)))]"
proof -
  define error where "error =
     \<lparr>err_path = model_name (model_at st i) @ ''/'' @ explore_name (explore_at st i j),
      err_sql = p_sql params, err_line_number = p_line_number params,
      err_message = p_message params, err_url = None\<rparr>"
  define st' where "st' = update_model i
       (\<lambda>m. (update_explore j
               (\<lambda>e. e\<lparr>explore_error := Some error, explore_errored := True\<rparr>) m)
             \<lparr>model_errored := True\<rparr>)
       (st\<lparr>rs_queries := rs_queries st @
          [(model_name (model_at st i), explore_name (explore_at st i j),
            map dimension_name (explore_dimensions (explore_at st i j)))]\<rparr>)"
  have "query_explore c py_str i j st = (Inr (Some error), st')"
    unfolding st'_def error_def using assms(4-7) by (rule query_explore_error)
  then have run: "validate_explore c py_str schedule i j batch st = (Inr [error], st')"
    by (simp add: validate_explore_batch [OF assms(3)])
  have path: "err_path error =
      model_name (model_at st i) @ ''/'' @ explore_name (explore_at st i j)"
    by (simp add: error_def)
  have e: "explore_at st' i j =
      (explore_at st i j)\<lparr>explore_error := Some error, explore_errored := True\<rparr>"
    using assms(1,2)
    by (simp add: st'_def explore_at_def model_at_def update_model_def update_explore_def)
  have m: "model_at st' i =
      (model_at st i)\<lparr>model_explores :=
          (model_explores (model_at st i))[j := explore_at st' i j],
        model_errored := True\<rparr>"
    using assms(1,2)
    by (simp add: st'_def explore_at_def model_at_def update_model_def update_explore_def)
  have flags: "explore_errored (explore_at st' i j)" "model_errored (model_at st' i)"
    by (simp_all add: e m)
  have dims: "explore_dimensions (explore_at st' i' j') =
      explore_dimensions (explore_at st i' j')" for i' j'
  proof (cases "i' = i")
    case False
    then show ?thesis
      by (simp add: st'_def explore_at_def model_at_update_model)
  next
    case True
    show ?thesis
    proof (cases "j' = j")
      case False
      with True assms(1) show ?thesis
        by (simp add: st'_def explore_at_def model_at_def update_model_def update_explore_def)
    next
      case j: True
      show ?thesis unfolding True j e by simp
    qed
  qed
  have queries: "rs_queries st' = rs_queries st @
         [(model_name (model_at st i), explore_name (explore_at st i j),
           map dimension_name (explore_dimensions (explore_at st i j)))]"
    by (simp add: st'_def)
  show ?thesis
    by (intro exI [of _ error] exI [of _ st'] conjI allI run path e m flags dims queries)
qed

theorem batch_error_on_explore_witness:
  "\<exists>error st'.
      validate_explore
        \<lparr>base_url = ''u'', get_models = [], get_dimensions = (\<lambda>m e. []),
         query_result = (\<lambda>m e ds. Inr (PyDict
           [(''errors'', PyList [PyDict [(''message_details'', PyStr ''boom'')]]),
            (''sql'', PyStr ''SELECT 1'')]))\<rparr>
        (\<lambda>v. []) (\<lambda>i j. ([], 0)) 0 0 (PyBool True)
        \<lparr>rs_project = \<lparr>project_name = ''p'', project_models =
           [\<lparr>model_name = ''m'', model_project = ''p'', model_explores =
              [\<lparr>explore_name = ''e'', explore_dimensions =
                 [\<lparr>dimension_name = ''d0'', dimension_url = ''u0'', dimension_ignore = False,
                   dimension_errored = False, dimension_error = None\<rparr>,
                  \<lparr>dimension_name = ''d1'', dimension_url = ''u1'', dimension_ignore = False,
                   dimension_errored = False, dimension_error = None\<rparr>,
                  \<lparr>dimension_name = ''d2'', dimension_url = ''u2'', dimension_ignore = False,
                   dimension_errored = False, dimension_error = None\<rparr>],
                explore_errored = False, explore_error = None\<rparr>],
             model_errored = False\<rparr>]\<rparr>,
         rs_queries = []\<rparr> = (Inr [error], st')
    \<and> err_path error = ''m/e''
    \<and> explore_errored (explore_at st' 0 0)
    \<and> model_errored (model_at st' 0)
    \<and> map dimension_errored (explore_dimensions (explore_at st' 0 0)) = [False, False, False]
    \<and> rs_queries st' = [(''m'', ''e'', [''d0'', ''d1'', ''d2''])]"
proof -
  define c where "c = \<lparr>base_url = ''u'', get_models = [], get_dimensions = (\<lambda>m e. []),
         query_result = (\<lambda>m e ds. Inr (PyDict
           [(''errors'', PyList [PyDict [(''message_details'', PyStr ''boom'')]]),
            (''sql'', PyStr ''SELECT 1'')]))\<rparr>"
  define st where "st = \<lparr>rs_project = \<lparr>project_name = ''p'', project_models =
           [\<lparr>model_name = ''m'', model_project = ''p'', model_explores =
              [\<lparr>explore_name = ''e'', explore_dimensions =
                 [\<lparr>dimension_name = ''d0'', dimension_url = ''u0'', dimension_ignore = False,
                   dimension_errored = False, dimension_error = None\<rparr>,
                  \<lparr>dimension_name = ''d1'', dimension_url = ''u1'', dimension_ignore = False,
                   dimension_errored = False, dimension_error = None\<rparr>,
                  \<lparr>dimension_name = ''d2'', dimension_url = ''u2'', dimension_ignore = False,
                   dimension_errored = False, dimension_error = None\<rparr>],
                explore_errored = False, explore_error = None\<rparr>],
             model_errored = False\<rparr>]\<rparr>,
         rs_queries = []\<rparr>"
  define result where "result = PyDict
           [(''errors'', PyList [PyDict [(''message_details'', PyStr ''boom'')]]),
            (''sql'', PyStr ''SELECT 1'')]"
  have h1: "0 < length (project_models (rs_project st))"
    by (simp add: st_def)
  have h2: "0 < length (model_explores (model_at st 0))"
    by (simp add: st_def model_at_def)
  have h3: "truthy (PyBool True)" by simp
  have h4: "query_result c (model_name (model_at st 0)) (explore_name (explore_at st 0 0))
           (map dimension_name (explore_dimensions (explore_at st 0 0))) = Inr result"
    by (simp add: c_def result_def)
  have h5: "is_dict result" by (simp add: result_def)
  have h6: "has_errors result" by (simp add: result_def has_errors_def dict_get_def)
  have h7: "get_error_from_api_result result =
      Inr \<lparr>p_sql = PyStr ''SELECT 1'', p_line_number = None, p_message = PyStr ''boom''\<rparr>"
    by (simp add: result_def get_error_from_api_result_def error_line_number_def dict_get_def)
  from batch_error_on_explore [OF h1 h2 h3 h4 h5 h6 h7, of "\<lambda>v. []" "\<lambda>i j. ([], 0)"]
  obtain error st' where
    run: "validate_explore c (\<lambda>v. []) (\<lambda>i j. ([], 0)) 0 0 (PyBool True) st = (Inr [error], st')"
    and path: "err_path error =
        model_name (model_at st 0) @ ''/'' @ explore_name (explore_at st 0 0)"
    and flags: "explore_errored (explore_at st' 0 0)" "model_errored (model_at st' 0)"
    and dims: "\<forall>i' j'. explore_dimensions (explore_at st' i' j') =
                  explore_dimensions (explore_at st i' j')"
    and queries: "rs_queries st' = rs_queries st @
         [(model_name (model_at st 0), explore_name (explore_at st 0 0),
           map dimension_name (explore_dimensions (explore_at st 0 0)))]"
    by blast
  have p: "err_path error = ''m/e''"
    using path by (simp add: st_def model_at_def explore_at_def)
  have "explore_dimensions (explore_at st' 0 0) = explore_dimensions (explore_at st 0 0)"
    using dims by simp
  then have untouched:
    "map dimension_errored (explore_dimensions (explore_at st' 0 0)) = [False, False, False]"
    by (simp add: st_def model_at_def explore_at_def)
  have q: "rs_queries st' = [(''m'', ''e'', [''d0'', ''d1'', ''d2''])]"
    using queries by (simp add: st_def model_at_def explore_at_def)
  show ?thesis
    unfolding c_def [symmetric] st_def [symmetric]
    by (intro exI [of _ error] exI [of _ st'] conjI run p flags untouched q)
qed

section \<open>Properties of the loops\<close>

lemma for_each_append:
  "for_each body (xs @ ys) st =
     (case for_each body xs st of
        (Inl e, st1) \<Rightarrow> (Inl e, st1)
      | (Inr a, st1) \<Rightarrow>
          (case for_each body ys st1 of
             (Inl e, st2) \<Rightarrow> (Inl e, st2)
           | (Inr b, st2) \<Rightarrow> (Inr (a @ b), st2)))"
  by (induction xs arbitrary: st) (auto split: prod.splits sum.splits)

lemma for_each_raise:
  assumes "for_each body xs st = (Inr a, st1)" and "body x st1 = (Inl e, st2)"
  shows "for_each body (xs @ x # ys) st = (Inl e, st2)"
  using assms by (simp add: for_each_append)

lemma upt_split: "j < n \<Longrightarrow> [0..<n] = [0..<j] @ j # [Suc j..<n]"
proof -
  assume "j < n"
  then have "[0..<n] = [0..<j] @ [j..<n]"
    by (metis le_add_diff_inverse less_imp_le_nat upt_add_eq_append zero_le)
  also have "[j..<n] = j # [Suc j..<n]"
    using \<open>j < n\<close> by (rule upt_conv_Cons)
  finally show ?thesis .
qed







section \<open>Properties of the wait for the tasks of an explore\<close>

lemma complete_late_invariant:
  assumes "I st" and "\<And>t s. t \<in> set ts \<Longrightarrow> I s \<Longrightarrow> I (snd (finish t s))"
  shows "I (complete_late finish ts st)"
  using assms by (induction ts arbitrary: st) simp_all

lemma complete_invariant:
  assumes "I st" and "\<And>t s. t \<in> set ts \<Longrightarrow> I s \<Longrightarrow> I (snd (finish t s))"
  shows "I (snd (complete finish late ts results st))"
  using assms
proof (induction ts arbitrary: st results)
  case Nil
  then show ?case by simp
next
  case (Cons t ts)
  have head: "I (snd (finish t st))" using Cons.prems by simp
  show ?case
  proof (cases "finish t st")
    case (Pair outcome st1)
    with head have I1: "I st1" by simp
    show ?thesis
    proof (cases outcome)
      case (Inl e)
      have "I (complete_late finish (take late ts) st1)"
      proof (rule complete_late_invariant [where I = I and st = st1, OF I1])
        fix t' s
        assume "t' \<in> set (take late ts)" and "I s"
        then show "I (snd (finish t' s))"
          using Cons.prems(2) [of t' s] by (auto dest: in_set_takeD)
      qed
      with Pair Inl show ?thesis by simp
    next
      case (Inr r)
      have "I (snd (complete finish late ts (results[t := r]) st1))"
        by (rule Cons.IH [of st1, OF I1]) (simp add: Cons.prems(2))
      with Pair Inr show ?thesis by simp
    qed
  qed
qed

lemma complete_results:
  assumes "I st" and "\<And>t s. t \<in> set ts \<Longrightarrow> I s \<Longrightarrow> I (snd (finish t s))"
    and "\<And>t s r. t \<in> set ts \<Longrightarrow> I s \<Longrightarrow> fst (finish t s) = Inr r \<Longrightarrow> Q r"
    and "list_all Q results"
    and "fst (complete finish late ts results st) = Inr results'"
  shows "list_all Q results'"
  using assms
proof (induction ts arbitrary: st results)
  case Nil
  then show ?case by simp
next
  case (Cons t ts)
  have head: "I (snd (finish t st))" using Cons.prems(1,2) by simp
  from Cons.prems(5) obtain r st1 where f: "finish t st = (Inr r, st1)"
    by (cases "finish t st") (auto split: sum.splits)
  with Cons.prems(5) have rest: "fst (complete finish late ts (results[t := r]) st1) = Inr results'"
    by simp
  have "Q r" using Cons.prems(3) [of t st r] Cons.prems(1) f by simp
  then have upd: "list_all Q (results[t := r])"
    using Cons.prems(4) set_update_subset_insert [of results t r]
    by (auto simp: list_all_iff)
  show ?case
  proof (rule Cons.IH [of st1 "results[t := r]"])
    show "I st1" using head f by simp
    show "list_all Q (results[t := r])" by (rule upd)
    show "fst (complete finish late ts (results[t := r]) st1) = Inr results'" by (rule rest)
    show "\<And>t' s. t' \<in> set ts \<Longrightarrow> I s \<Longrightarrow> I (snd (finish t' s))"
      using Cons.prems(2) by simp
  next
    fix t' s r'
    assume "t' \<in> set ts" "I s" "fst (finish t' s) = Inr r'"
    then show "Q r'" using Cons.prems(3) [of t' s r'] by simp
  qed
qed

lemma task_result_queries:
  "rs_queries (snd (task_result py_str i j task outcome st)) = rs_queries st"
  by (cases task)
     (simp_all add: explore_result_def dimension_result_def Let_def split: sum.splits)

lemma task_result_unexpected:
  assumes "\<not> is_list result" and "\<not> (is_dict result \<and> has_errors result)"
  shows "task_result py_str i j task (Inr result) st =
    (Inl (FonzException
       (case task of
          Query_explore \<Rightarrow>
            ''Unexpected API result for explore '' @ [quote] @ model_name (model_at st i) @
            ''/'' @ explore_name (explore_at st i j) @ [quote] @
            ''. API result obtained: '' @ py_str result
        | Query_dimension k \<Rightarrow>
            ''Unexpected API result for dimension '' @ [quote] @ model_name (model_at st i) @
            ''/'' @ dimension_name (dimension_at st i j k) @ [quote] @
            ''. API result obtained: '' @ py_str result)), st)"
  using assms
  by (cases task)
     (auto simp: explore_result_def dimension_result_def Let_def unexpected_message_def)

text \<open>
  Claim C7. Let the models before model \<open>i\<close> and the explores of model \<open>i\<close> before
  explore \<open>j\<close> have been validated without an exception, and let, among the tasks of
  explore \<open>j\<close>, those that complete before task \<open>t\<close> return. If the answer to the
  query of task \<open>t\<close> is neither a list nor a dictionary with errors, \<open>validate\<close>
  ends with the \<open>FonzException\<close> whose message names the model and the explore (in
  batch mode) or the model and the dimension, between quotes, and ends with the answer as
  Python prints it. The exception is all that is returned: no list of errors. The
  queries sent are those up to and of explore \<open>j\<close>, none of an explore after it; of
  the tasks of explore \<open>j\<close> that had not completed only the late ones still write.
\<close>

theorem unexpected_result_aborts_run:
  assumes "i < length (project_models (rs_project st))"
    and "for_each (validate_model c py_str schedule batch) [0..<i] st = (Inr errors1, st1)"
    and "j < length (model_explores (model_at st1 i))"
    and "for_each (\<lambda>j. validate_explore c py_str schedule i j batch) [0..<j] st1 =
           (Inr errors2, st2)"
    and "tasks = create_tasks batch (explore_at st2 i j)"
    and "queries = map (task_query st2 i j) tasks"
    and "finish = (\<lambda>t. task_result py_str i j (tasks ! t) (answer c (queries ! t)))"
    and "completion_order (length tasks) (fst (schedule i j)) = before @ t # after"
    and "complete finish (snd (schedule i j)) before (replicate (length tasks) None)
           (st2\<lparr>rs_queries := rs_queries st2 @ queries\<rparr>) = (Inr results, st3)"
    and "answer c (queries ! t) = Inr result"
    and "\<not> is_list result"
    and "\<not> (is_dict result \<and> has_errors result)"
  shows "validate c py_str schedule batch st =
    (Inl (FonzException
       (case tasks ! t of
          Query_explore \<Rightarrow>
            ''Unexpected API result for explore '' @ [quote] @ model_name (model_at st3 i) @
            ''/'' @ explore_name (explore_at st3 i j) @ [quote] @
            ''. API result obtained: '' @ py_str result
        | Query_dimension k \<Rightarrow>
            ''Unexpected API result for dimension '' @ [quote] @ model_name (model_at st3 i) @
            ''/'' @ dimension_name (dimension_at st3 i j k) @ [quote] @
            ''. API result obtained: '' @ py_str result)),
     complete_late finish (take (snd (schedule i j)) after) st3)
   \<and> rs_queries (complete_late finish (take (snd (schedule i j)) after) st3) =
       rs_queries st2 @ queries"
    (is "_ = (Inl ?exn, ?st4) \<and> _")
proof
  have fin: "finish t st3 = (Inl ?exn, st3)"
    unfolding assms(7) assms(10) using assms(11,12) by (rule task_result_unexpected)
  have "complete finish (snd (schedule i j)) (before @ t # after)
          (replicate (length tasks) None) (st2\<lparr>rs_queries := rs_queries st2 @ queries\<rparr>) =
        complete finish (snd (schedule i j)) (t # after) results st3"
    using assms(9) by (rule complete_prefix)
  also have "\<dots> = (Inl ?exn, ?st4)"
    by (simp add: fin)
  finally have "gather c py_str (fst (schedule i j)) (snd (schedule i j)) i j tasks st2 =
      (Inl ?exn, ?st4)"
    by (simp add: gather_def Let_def assms(6) [symmetric] assms(7) [symmetric] assms(8))
  then have explore: "validate_explore c py_str schedule i j batch st2 = (Inl ?exn, ?st4)"
    by (simp add: validate_explore_def assms(5) [symmetric])
  have "for_each (\<lambda>j. validate_explore c py_str schedule i j batch)
          ([0..<j] @ j # [Suc j..<length (model_explores (model_at st1 i))]) st1 =
        (Inl ?exn, ?st4)"
    using assms(4) explore by (rule for_each_raise)
  then have model: "validate_model c py_str schedule batch i st1 = (Inl ?exn, ?st4)"
    unfolding validate_model_def using upt_split [OF assms(3)] by simp
  have "for_each (validate_model c py_str schedule batch)
          ([0..<i] @ i # [Suc i..<length (project_models (rs_project st))]) st =
        (Inl ?exn, ?st4)"
    using assms(2) model by (rule for_each_raise)
  then show "validate c py_str schedule batch st = (Inl ?exn, ?st4)"
    unfolding validate_def using upt_split [OF assms(1)] by simp
next
  let ?I = "\<lambda>s::run_state. rs_queries s = rs_queries st2 @ queries"
  have step: "?I (snd (finish t' s))" if "?I s" for t' s
    using that unfolding assms(7) by (simp add: task_result_queries)
  have "?I (snd (complete finish (snd (schedule i j)) before (replicate (length tasks) None)
           (st2\<lparr>rs_queries := rs_queries st2 @ queries\<rparr>)))"
    by (rule complete_invariant [where I = ?I]) (simp_all add: step)
  then have "?I st3" by (simp add: assms(9))
  then show "?I (complete_late finish (take (snd (schedule i j)) after) st3)"
    by (rule complete_late_invariant [where I = ?I]) (rule step)
qed

theorem unexpected_result_aborts_run_witness:
  "fst (validate
     \<lparr>base_url = ''u'', get_models = [], get_dimensions = (\<lambda>m e. []),
         query_result = (\<lambda>m e ds.
           if ds = [''d0''] then Inr (PyList [])
           else if ds = [''d1''] then Inr (PyDict [(''errors'', PyList [])])
           else Inr (PyDict
             [(''errors'', PyList [PyDict [(''message_details'', PyStr ''boom'')]]),
              (''sql'', PyStr ''SELECT 1'')]))\<rparr>
     (\<lambda>v. ''<result>'') (\<lambda>i j. ([], 1)) (PyBool False)
     \<lparr>rs_project = \<lparr>project_name = ''p'', project_models =
           [\<lparr>model_name = ''m'', model_project = ''p'', model_explores =
              [\<lparr>explore_name = ''e'', explore_dimensions =
                 [\<lparr>dimension_name = ''d0'', dimension_url = ''u0'', dimension_ignore = False,
                   dimension_errored = False, dimension_error = None\<rparr>,
                  \<lparr>dimension_name = ''d1'', dimension_url = ''u1'', dimension_ignore = False,
                   dimension_errored = False, dimension_error = None\<rparr>,
                  \<lparr>dimension_name = ''d2'', dimension_url = ''u2'', dimension_ignore = False,
                   dimension_errored = False, dimension_error = None\<rparr>],
                explore_errored = False, explore_error = None\<rparr>],
             model_errored = False\<rparr>]\<rparr>,
         rs_queries = []\<rparr>) =
     Inl (FonzException ''Unexpected API result for dimension 'm/d1'. API result obtained: <result>'')
   \<and> rs_queries (snd (validate
     \<lparr>base_url = ''u'', get_models = [], get_dimensions = (\<lambda>m e. []),
         query_result = (\<lambda>m e ds.
           if ds = [''d0''] then Inr (PyList [])
           else if ds = [''d1''] then Inr (PyDict [(''errors'', PyList [])])
           else Inr (PyDict
             [(''errors'', PyList [PyDict [(''message_details'', PyStr ''boom'')]]),
              (''sql'', PyStr ''SELECT 1'')]))\<rparr>
     (\<lambda>v. ''<result>'') (\<lambda>i j. ([], 1)) (PyBool False)
     \<lparr>rs_project = \<lparr>project_name = ''p'', project_models =
           [\<lparr>model_name = ''m'', model_project = ''p'', model_explores =
              [\<lparr>explore_name = ''e'', explore_dimensions =
                 [\<lparr>dimension_name = ''d0'', dimension_url = ''u0'', dimension_ignore = False,
                   dimension_errored = False, dimension_error = None\<rparr>,
                  \<lparr>dimension_name = ''d1'', dimension_url = ''u1'', dimension_ignore = False,
                   dimension_errored = False, dimension_error = None\<rparr>,
                  \<lparr>dimension_name = ''d2'', dimension_url = ''u2'', dimension_ignore = False,
                   dimension_errored = False, dimension_error = None\<rparr>],
                explore_errored = False, explore_error = None\<rparr>],
             model_errored = False\<rparr>]\<rparr>,
         rs_queries = []\<rparr>)) =
     [(''m'', ''e'', [''d0'']), (''m'', ''e'', [''d1'']), (''m'', ''e'', [''d2''])]
   \<and> map dimension_errored (explore_dimensions (explore_at (snd (validate
     \<lparr>base_url = ''u'', get_models = [], get_dimensions = (\<lambda>m e. []),
         query_result = (\<lambda>m e ds.
           if ds = [''d0''] then Inr (PyList [])
           else if ds = [''d1''] then Inr (PyDict [(''errors'', PyList [])])
           else Inr (PyDict
             [(''errors'', PyList [PyDict [(''message_details'', PyStr ''boom'')]]),
              (''sql'', PyStr ''SELECT 1'')]))\<rparr>
     (\<lambda>v. ''<result>'') (\<lambda>i j. ([], 1)) (PyBool False)
     \<lparr>rs_project = \<lparr>project_name = ''p'', project_models =
           [\<lparr>model_name = ''m'', model_project = ''p'', model_explores =
              [\<lparr>explore_name = ''e'', explore_dimensions =
                 [\<lparr>dimension_name = ''d0'', dimension_url = ''u0'', dimension_ignore = False,
                   dimension_errored = False, dimension_error = None\<rparr>,
                  \<lparr>dimension_name = ''d1'', dimension_url = ''u1'', dimension_ignore = False,
                   dimension_errored = False, dimension_error = None\<rparr>,
                  \<lparr>dimension_name = ''d2'', dimension_url = ''u2'', dimension_ignore = False,
                   dimension_errored = False, dimension_error = None\<rparr>],
                explore_errored = False, explore_error = None\<rparr>],
             model_errored = False\<rparr>]\<rparr>,
         rs_queries = []\<rparr>)) 0 0)) =
     [False, False, True]
   \<and> map dimension_errored (explore_dimensions (explore_at (snd (validate
     \<lparr>base_url = ''u'', get_models = [], get_dimensions = (\<lambda>m e. []),
         query_result = (\<lambda>m e ds.
           if ds = [''d0''] then Inr (PyList [])
           else if ds = [''d1''] then Inr (PyDict [(''errors'', PyList [])])
           else Inr (PyDict
             [(''errors'', PyList [PyDict [(''message_details'', PyStr ''boom'')]]),
              (''sql'', PyStr ''SELECT 1'')]))\<rparr>
     (\<lambda>v. ''<result>'') (\<lambda>i j. ([], 0)) (PyBool False)
     \<lparr>rs_project = \<lparr>project_name = ''p'', project_models =
           [\<lparr>model_name = ''m'', model_project = ''p'', model_explores =
              [\<lparr>explore_name = ''e'', explore_dimensions =
                 [\<lparr>dimension_name = ''d0'', dimension_url = ''u0'', dimension_ignore = False,
                   dimension_errored = False, dimension_error = None\<rparr>,
                  \<lparr>dimension_name = ''d1'', dimension_url = ''u1'', dimension_ignore = False,
                   dimension_errored = False, dimension_error = None\<rparr>,
                  \<lparr>dimension_name = ''d2'', dimension_url = ''u2'', dimension_ignore = False,
                   dimension_errored = False, dimension_error = None\<rparr>],
                explore_errored = False, explore_error = None\<rparr>],
             model_errored = False\<rparr>]\<rparr>,
         rs_queries = []\<rparr>)) 0 0)) =
     [False, False, False]"
proof -
  define c where "c = \<lparr>base_url = ''u'', get_models = [], get_dimensions = (\<lambda>m e. []),
         query_result = (\<lambda>m e ds.
           if ds = [''d0''] then Inr (PyList [])
           else if ds = [''d1''] then Inr (PyDict [(''errors'', PyList [])])
           else Inr (PyDict
             [(''errors'', PyList [PyDict [(''message_details'', PyStr ''boom'')]]),
              (''sql'', PyStr ''SELECT 1'')]))\<rparr>"
  define st where "st = \<lparr>rs_project = \<lparr>project_name = ''p'', project_models =
           [\<lparr>model_name = ''m'', model_project = ''p'', model_explores =
              [\<lparr>explore_name = ''e'', explore_dimensions =
                 [\<lparr>dimension_name = ''d0'', dimension_url = ''u0'', dimension_ignore = False,
                   dimension_errored = False, dimension_error = None\<rparr>,
                  \<lparr>dimension_name = ''d1'', dimension_url = ''u1'', dimension_ignore = False,
                   dimension_errored = False, dimension_error = None\<rparr>,
                  \<lparr>dimension_name = ''d2'', dimension_url = ''u2'', dimension_ignore = False,
                   dimension_errored = False, dimension_error = None\<rparr>],
                explore_errored = False, explore_error = None\<rparr>],
             model_errored = False\<rparr>]\<rparr>,
         rs_queries = []\<rparr>"
  define tasks where "tasks = [Query_dimension 0, Query_dimension 1, Query_dimension 2]"
  define queries where
    "queries = [(''m'', ''e'', [''d0'']), (''m'', ''e'', [''d1'']), (''m'', ''e'', [''d2''])]"
  define finish where
    "finish = (\<lambda>t. task_result (\<lambda>v. ''<result>'') 0 0 (tasks ! t) (answer c (queries ! t)))"
  define result where "result = PyDict [(''errors'', PyList [])]"
  let ?schedule = "\<lambda>i j :: nat. ([] :: nat list, 1 :: nat)"
  have h1: "0 < length (project_models (rs_project st))"
    by (simp add: st_def)
  have h2: "for_each (validate_model c (\<lambda>v. ''<result>'') ?schedule (PyBool False)) [0..<0] st =
      (Inr [], st)"
    by simp
  have h3: "0 < length (model_explores (model_at st 0))"
    by (simp add: st_def model_at_def)
  have h4: "for_each (\<lambda>j. validate_explore c (\<lambda>v. ''<result>'') ?schedule 0 j (PyBool False))
      [0..<0] st = (Inr [], st)"
    by simp
  have h5: "tasks = create_tasks (PyBool False) (explore_at st 0 0)"
    by (simp add: tasks_def create_tasks_def st_def model_at_def explore_at_def upt_rec)
  have h6: "queries = map (task_query st 0 0) tasks"
    by (simp add: queries_def tasks_def st_def model_at_def explore_at_def dimension_at_def)
  have h7: "finish = (\<lambda>t. task_result (\<lambda>v. ''<result>'') 0 0 (tasks ! t) (answer c (queries ! t)))"
    by (rule finish_def)
  have h8: "completion_order (length tasks) (fst (?schedule 0 0)) = [0] @ 1 # [2]"
    by (simp add: tasks_def completion_order_def upt_rec)
  have h9: "complete finish (snd (?schedule 0 0)) [0] (replicate (length tasks) None)
           (st\<lparr>rs_queries := rs_queries st @ queries\<rparr>) =
        (Inr [None, None, None], st\<lparr>rs_queries := rs_queries st @ queries\<rparr>)"
    by (simp add: finish_def tasks_def queries_def answer_def c_def dimension_result_def
        Let_def numeral_3_eq_3)
  have h10: "answer c (queries ! 1) = Inr result"
    by (simp add: queries_def answer_def c_def result_def)
  have h11: "\<not> is_list result" by (simp add: result_def)
  have h12: "\<not> (is_dict result \<and> has_errors result)"
    by (simp add: result_def has_errors_def dict_get_def)
  note run = unexpected_result_aborts_run
    [OF h1 h2 h3 h4 h5 h6 h7 h8 h9 h10 h11 h12, THEN conjunct1]
  have outcome: "fst (validate c (\<lambda>v. ''<result>'') ?schedule (PyBool False) st) =
     Inl (FonzException
       ''Unexpected API result for dimension 'm/d1'. API result obtained: <result>'')"
    unfolding run
    by (simp add: tasks_def st_def model_at_def explore_at_def dimension_at_def quote_def)
  have q: "rs_queries (snd (validate
     \<lparr>base_url = ''u'', get_models = [], get_dimensions = (\<lambda>m e. []),
         query_result = (\<lambda>m e ds.
           if ds = [''d0''] then Inr (PyList [])
           else if ds = [''d1''] then Inr (PyDict [(''errors'', PyList [])])
           else Inr (PyDict
             [(''errors'', PyList [PyDict [(''message_details'', PyStr ''boom'')]]),
              (''sql'', PyStr ''SELECT 1'')]))\<rparr>
     (\<lambda>v. ''<result>'') (\<lambda>i j. ([], 1)) (PyBool False)
     \<lparr>rs_project = \<lparr>project_name = ''p'', project_models =
           [\<lparr>model_name = ''m'', model_project = ''p'', model_explores =
              [\<lparr>explore_name = ''e'', explore_dimensions =
                 [\<lparr>dimension_name = ''d0'', dimension_url = ''u0'', dimension_ignore = False,
                   dimension_errored = False, dimension_error = None\<rparr>,
                  \<lparr>dimension_name = ''d1'', dimension_url = ''u1'', dimension_ignore = False,
                   dimension_errored = False, dimension_error = None\<rparr>,
                  \<lparr>dimension_name = ''d2'', dimension_url = ''u2'', dimension_ignore = False,
                   dimension_errored = False, dimension_error = None\<rparr>],
                explore_errored = False, explore_error = None\<rparr>],
             model_errored = False\<rparr>]\<rparr>,
         rs_queries = []\<rparr>)) =
     [(''m'', ''e'', [''d0'']), (''m'', ''e'', [''d1'']), (''m'', ''e'', [''d2''])]"
    by code_simp
  have late: "map dimension_errored (explore_dimensions (explore_at (snd (validate
     \<lparr>base_url = ''u'', get_models = [], get_dimensions = (\<lambda>m e. []),
         query_result = (\<lambda>m e ds.
           if ds = [''d0''] then Inr (PyList [])
           else if ds = [''d1''] then Inr (PyDict [(''errors'', PyList [])])
           else Inr (PyDict
             [(''errors'', PyList [PyDict [(''message_details'', PyStr ''boom'')]]),
              (''sql'', PyStr ''SELECT 1'')]))\<rparr>
     (\<lambda>v. ''<result>'') (\<lambda>i j. ([], 1)) (PyBool False)
     \<lparr>rs_project = \<lparr>project_name = ''p'', project_models =
           [\<lparr>model_name = ''m'', model_project = ''p'', model_explores =
              [\<lparr>explore_name = ''e'', explore_dimensions =
                 [\<lparr>dimension_name = ''d0'', dimension_url = ''u0'', dimension_ignore = False,
                   dimension_errored = False, dimension_error = None\<rparr>,
                  \<lparr>dimension_name = ''d1'', dimension_url = ''u1'', dimension_ignore = False,
                   dimension_errored = False, dimension_error = None\<rparr>,
                  \<lparr>dimension_name = ''d2'', dimension_url = ''u2'', dimension_ignore = False,
                   dimension_errored = False, dimension_error = None\<rparr>],
                explore_errored = False, explore_error = None\<rparr>],
             model_errored = False\<rparr>]\<rparr>,
         rs_queries = []\<rparr>)) 0 0)) =
     [False, False, True]"
    by code_simp
  have none: "map dimension_errored (explore_dimensions (explore_at (snd (validate
     \<lparr>base_url = ''u'', get_models = [], get_dimensions = (\<lambda>m e. []),
         query_result = (\<lambda>m e ds.
           if ds = [''d0''] then Inr (PyList [])
           else if ds = [''d1''] then Inr (PyDict [(''errors'', PyList [])])
           else Inr (PyDict
             [(''errors'', PyList [PyDict [(''message_details'', PyStr ''boom'')]]),
              (''sql'', PyStr ''SELECT 1'')]))\<rparr>
     (\<lambda>v. ''<result>'') (\<lambda>i j. ([], 0)) (PyBool False)
     \<lparr>rs_project = \<lparr>project_name = ''p'', project_models =
           [\<lparr>model_name = ''m'', model_project = ''p'', model_explores =
              [\<lparr>explore_name = ''e'', explore_dimensions =
                 [\<lparr>dimension_name = ''d0'', dimension_url = ''u0'', dimension_ignore = False,
                   dimension_errored = False, dimension_error = None\<rparr>,
                  \<lparr>dimension_name = ''d1'', dimension_url = ''u1'', dimension_ignore = False,
                   dimension_errored = False, dimension_error = None\<rparr>,
                  \<lparr>dimension_name = ''d2'', dimension_url = ''u2'', dimension_ignore = False,
                   dimension_errored = False, dimension_error = None\<rparr>],
                explore_errored = False, explore_error = None\<rparr>],
             model_errored = False\<rparr>]\<rparr>,
         rs_queries = []\<rparr>)) 0 0)) =
     [False, False, False]"
    by code_simp
  show ?thesis
    using outcome q late none unfolding c_def st_def by simp
qed

section \<open>The built hierarchy holds no ignored dimension\<close>

lemma select_subset:
  "select set_order project class_name name_of choices select_from = Inr chosen \<Longrightarrow>
     set chosen \<subseteq> set select_from"
  by (auto simp: select_def Let_def split: if_splits list.splits)

lemma build_models_loaded:
  "build_models c set_order project selection models = Inr models' \<Longrightarrow>
     \<forall>m'\<in>set models'. \<exists>m\<in>set models. model_name m' = model_name m \<and>
        (\<forall>e'\<in>set (model_explores m'). \<exists>e\<in>set (model_explores m).
           e' = load_dimensions c (model_name m) e)"
proof (induction models arbitrary: selection models')
  case Nil
  then show ?case by simp
next
  case (Cons model models)
  obtain names selection1 where g: "selection_get selection (model_name model) = (names, selection1)"
    by (cases "selection_get selection (model_name model)") auto
  from Cons.prems g obtain selected_explores rest where
    sel: "select set_order project ''Explore'' explore_name
            (expand_explores names (model_explores model)) (model_explores model) =
          Inr selected_explores"
    and rest: "build_models c set_order project
            (AList.update (model_name model)
               (expand_explores names (model_explores model)) selection1) models = Inr rest"
    and res: "models' = model\<lparr>model_explores :=
                map (load_dimensions c (model_name model)) selected_explores\<rparr> # rest"
    by (auto simp: Let_def split: sum.splits)
  from select_subset [OF sel] have sub: "set selected_explores \<subseteq> set (model_explores model)" .
  have head: "\<forall>e'\<in>set (map (load_dimensions c (model_name model)) selected_explores).
      \<exists>e\<in>set (model_explores model). e' = load_dimensions c (model_name model) e"
    using sub by auto
  from Cons.IH [OF rest] have tail: "\<forall>m'\<in>set rest. \<exists>m\<in>set models. model_name m' = model_name m \<and>
        (\<forall>e'\<in>set (model_explores m'). \<exists>e\<in>set (model_explores m).
           e' = load_dimensions c (model_name m) e)" .
  show ?case
    unfolding res using head tail by auto
qed

lemma loaded_explore_listed:
  assumes "explore_dimensions e = []"
    and "d \<in> set (explore_dimensions (load_dimensions c mname e))"
  shows "from_listing c mname (explore_name (load_dimensions c mname e)) d"
proof -
  from assms obtain dj where dj: "dj \<in> set (get_dimensions c mname (explore_name e))"
    "\<not> dj_ignore dj"
    "d = (Dimension_from_json dj)\<lparr>dimension_url := base_url c @ dj_url dj\<rparr>"
    by (auto simp: load_dimensions_eq)
  then show ?thesis
    by (auto simp: from_listing_def Dimension_from_json_def)
qed

lemma build_project_listed:
  assumes "build_project c set_order selectors self = Inr built"
  shows "hierarchy_listed c built"
proof -
  from assms obtain selection selected_models models where
    sel: "select set_order (project_name self) ''Model'' model_name
            (set (map fst (expand_models selection
               (filter (\<lambda>model. model_project model = project_name self)
                  (map Model_from_json (get_models c))))))
            (filter (\<lambda>model. model_project model = project_name self)
               (map Model_from_json (get_models c))) = Inr selected_models"
    and bm: "build_models c set_order (project_name self)
            (expand_models selection
               (filter (\<lambda>model. model_project model = project_name self)
                  (map Model_from_json (get_models c)))) selected_models = Inr models"
    and built: "built = self\<lparr>project_models := models\<rparr>"
    by (auto simp: build_project_def Let_def split: sum.splits)
  have fresh: "\<forall>m\<in>set selected_models. \<forall>e\<in>set (model_explores m). explore_dimensions e = []"
  proof (intro ballI)
    fix m e
    assume "m \<in> set selected_models" and e: "e \<in> set (model_explores m)"
    with select_subset [OF sel] obtain mj where "m = Model_from_json mj" by auto
    with e obtain n where "e = Explore_from_json n" by auto
    then show "explore_dimensions e = []" by simp
  qed
  show ?thesis
    unfolding hierarchy_listed_def built
  proof (intro ballI)
    fix m' e' d
    assume m': "m' \<in> set (project_models (self\<lparr>project_models := models\<rparr>))"
      and e': "e' \<in> set (model_explores m')" and d: "d \<in> set (explore_dimensions e')"
    from m' have "m' \<in> set models" by simp
    with build_models_loaded [OF bm] e' obtain m e where
      m: "m \<in> set selected_models" "model_name m' = model_name m"
      and e: "e \<in> set (model_explores m)" "e' = load_dimensions c (model_name m) e"
      by blast
    from fresh m(1) e(1) have "explore_dimensions e = []" by blast
    from loaded_explore_listed [OF this, of d c "model_name m"] d e(2) m(2)
    show "from_listing c (model_name m') (explore_name e') d" by simp
  qed
qed

section \<open>Validation keeps to the built hierarchy\<close>

lemma for_each_invariant:
  assumes "I st" and "\<And>x s. x \<in> set xs \<Longrightarrow> I s \<Longrightarrow> I (snd (body x s))"
  shows "I (snd (for_each body xs st))"
  using assms
proof (induction xs arbitrary: st)
  case Nil
  then show ?case by simp
next
  case (Cons x xs)
  have head: "I (snd (body x st))" using Cons.prems by simp
  have tail: "I (snd (for_each body xs (snd (body x st))))"
    by (rule Cons.IH [OF head]) (simp add: Cons.prems(2))
  show ?case
    using head tail by (auto split: prod.splits sum.splits)
qed

lemma for_each_results:
  assumes "I st" and "\<And>x s. x \<in> set xs \<Longrightarrow> I s \<Longrightarrow> I (snd (body x s))"
    and "\<And>x s ys. x \<in> set xs \<Longrightarrow> I s \<Longrightarrow> fst (body x s) = Inr ys \<Longrightarrow> list_all Q ys"
    and "fst (for_each body xs st) = Inr zs"
  shows "list_all Q zs"
  using assms
proof (induction xs arbitrary: st zs)
  case Nil
  then show ?case by simp
next
  case (Cons x xs)
  have head: "I (snd (body x st))" using Cons.prems(1,2) by simp
  from Cons.prems(4) obtain ys st1 where b: "body x st = (Inr ys, st1)"
    by (cases "body x st") (auto split: sum.splits)
  with Cons.prems(4) obtain zs' st2 where r: "for_each body xs st1 = (Inr zs', st2)"
    and zs: "zs = ys @ zs'"
    by (cases "for_each body xs st1") (auto split: sum.splits)
  have "list_all Q ys"
    using Cons.prems(3) [of x st ys] Cons.prems(1) b by simp
  moreover have "list_all Q zs'"
  proof (rule Cons.IH [of st1])
    show "I st1" using head b by simp
    show "fst (for_each body xs st1) = Inr zs'" using r by simp
    show "\<And>x' s. x' \<in> set xs \<Longrightarrow> I s \<Longrightarrow> I (snd (body x' s))"
      using Cons.prems(2) by simp
  next
    fix x' s ys'
    assume "x' \<in> set xs" "I s" "fst (body x' s) = Inr ys'"
    then show "list_all Q ys'"
      using Cons.prems(3) [of x' s ys'] by simp
  qed
  ultimately show ?case by (simp add: zs)
qed

lemma map_update_same:
  "g (f (xs ! i)) = g (xs ! i) \<Longrightarrow> map g (xs[i := f (xs ! i)]) = map g xs"
proof (cases "i < length xs")
  case True
  assume "g (f (xs ! i)) = g (xs ! i)"
  then have "map g (xs[i := f (xs ! i)]) = (map g xs)[i := map g xs ! i]"
    using True by (simp add: map_update)
  then show ?thesis by simp
next
  case False
  then show ?thesis by (simp add: list_update_beyond)
qed

lemma update_dimension_shape:
  "dimension_shape (f (explore_dimensions e ! k)) = dimension_shape (explore_dimensions e ! k) \<Longrightarrow>
     explore_shape (update_dimension k f e) = explore_shape e"
  by (simp add: explore_shape_def update_dimension_def map_update_same)

lemma update_explore_shape:
  "explore_shape (f (model_explores m ! j)) = explore_shape (model_explores m ! j) \<Longrightarrow>
     model_shape (update_explore j f m) = model_shape m"
  by (simp add: model_shape_def update_explore_def map_update_same)

lemma update_model_shape:
  "model_shape (f (project_models (rs_project st) ! i)) =
     model_shape (project_models (rs_project st) ! i) \<Longrightarrow>
     project_shape (rs_project (update_model i f st)) = project_shape (rs_project st)"
  by (simp add: project_shape_def update_model_def map_update_same)

lemma flags_shape [simp]:
  "dimension_shape (d\<lparr>dimension_error := x\<rparr>) = dimension_shape d"
  "dimension_shape (d\<lparr>dimension_errored := b\<rparr>) = dimension_shape d"
  "explore_shape (e\<lparr>explore_error := y\<rparr>) = explore_shape e"
  "explore_shape (e\<lparr>explore_errored := b\<rparr>) = explore_shape e"
  "model_shape (m\<lparr>model_errored := b\<rparr>) = model_shape m"
  by (simp_all add: dimension_shape_def explore_shape_def model_shape_def)

lemma project_shape_log [simp]:
  "project_shape (rs_project (st\<lparr>rs_queries := qs\<rparr>)) = project_shape (rs_project st)"
  by simp

lemma explore_result_shape:
  "project_shape (rs_project (snd (explore_result py_str i j outcome st))) =
     project_shape (rs_project st)"
proof -
  have upd: "project_shape (rs_project (update_model i
       (\<lambda>m. (update_explore j
               (\<lambda>e. e\<lparr>explore_error := Some error, explore_errored := True\<rparr>) m)
             \<lparr>model_errored := True\<rparr>) s)) = project_shape (rs_project s)" for error s
    apply (rule update_model_shape)
    apply (simp only: flags_shape)
    apply (rule update_explore_shape)
    apply simp
    done
  show ?thesis
    by (simp add: explore_result_def Let_def upd split: sum.splits)
qed

lemma dimension_result_shape:
  "project_shape (rs_project (snd (dimension_result py_str i j k outcome st))) =
     project_shape (rs_project st)"
proof -
  have upd: "project_shape (rs_project (update_model i
       (\<lambda>m. (update_explore j
               (\<lambda>e. (update_dimension k
                       (\<lambda>d. d\<lparr>dimension_error := Some error,
                         dimension_errored := True\<rparr>) e)
                     \<lparr>explore_errored := True\<rparr>) m)
             \<lparr>model_errored := True\<rparr>) s)) = project_shape (rs_project s)" for error s
    apply (rule update_model_shape)
    apply (simp only: flags_shape)
    apply (rule update_explore_shape)
    apply (simp only: flags_shape)
    apply (rule update_dimension_shape)
    apply simp
    done
  show ?thesis
    by (simp add: dimension_result_def Let_def upd split: sum.splits)
qed

lemma task_result_shape:
  "project_shape (rs_project (snd (task_result py_str i j task outcome st))) =
     project_shape (rs_project st)"
  by (cases task) (simp_all add: explore_result_shape dimension_result_shape)

lemma explore_result_error:
  "fst (explore_result py_str i j outcome st) = Inr (Some error) \<Longrightarrow>
     err_path error = model_name (model_at st i) @ ''/'' @ explore_name (explore_at st i j)
     \<and> err_url error = None"
  by (auto simp: explore_result_def Let_def split: sum.splits if_splits)

lemma dimension_result_error:
  "fst (dimension_result py_str i j k outcome st) = Inr (Some error) \<Longrightarrow>
     err_path error = model_name (model_at st i) @ ''/'' @ dimension_name (dimension_at st i j k)
     \<and> err_url error = Some (dimension_url (dimension_at st i j k))"
  by (auto simp: dimension_result_def Let_def split: sum.splits if_splits)

lemma map_eq_in_set:
  assumes "map f xs = map f ys" and "y \<in> set ys"
  shows "\<exists>x\<in>set xs. f x = f y"
proof -
  from assms(2) have "f y \<in> set (map f ys)" by simp
  then have "f y \<in> set (map f xs)" by (simp only: assms(1))
  then show ?thesis by auto
qed

lemma map_eq_nth:
  assumes "map f xs = map f ys" and "i < length xs"
  shows "f (xs ! i) = f (ys ! i)" and "i < length ys"
proof -
  from assms(1) have len: "length xs = length ys" by (rule map_eq_imp_length_eq)
  with assms(2) show "i < length ys" by simp
  have "map f xs ! i = map f ys ! i" by (simp only: assms(1))
  with assms(2) len show "f (xs ! i) = f (ys ! i)" by simp
qed

lemma from_listing_shape:
  "dimension_shape d = dimension_shape d' \<Longrightarrow>
     from_listing c mname ename d = from_listing c mname ename d'"
  by (simp add: from_listing_def dimension_shape_def)

text \<open>The nodes at a position in two projects of the same shape.\<close>

lemma same_shape_model:
  assumes "project_shape p = project_shape p'" and "i < length (project_models p)"
  shows "i < length (project_models p')"
    and "model_name (project_models p ! i) = model_name (project_models p' ! i)"
    and "map explore_shape (model_explores (project_models p ! i)) =
         map explore_shape (model_explores (project_models p' ! i))"
proof -
  from assms have m: "model_shape (project_models p ! i) = model_shape (project_models p' ! i)"
    and l: "i < length (project_models p')"
    unfolding project_shape_def by (rule map_eq_nth)+
  show "i < length (project_models p')" by (rule l)
  from m show "model_name (project_models p ! i) = model_name (project_models p' ! i)"
    and "map explore_shape (model_explores (project_models p ! i)) =
         map explore_shape (model_explores (project_models p' ! i))"
    by (simp_all add: model_shape_def)
qed

lemma same_shape_explore:
  assumes "project_shape p = project_shape p'" and "i < length (project_models p)"
    and "j < length (model_explores (project_models p ! i))"
  shows "j < length (model_explores (project_models p' ! i))"
    and "explore_name (model_explores (project_models p ! i) ! j) =
         explore_name (model_explores (project_models p' ! i) ! j)"
    and "map dimension_shape (explore_dimensions (model_explores (project_models p ! i) ! j)) =
         map dimension_shape (explore_dimensions (model_explores (project_models p' ! i) ! j))"
proof -
  note es = same_shape_model(3) [OF assms(1,2)]
  from es assms(3) have e: "explore_shape (model_explores (project_models p ! i) ! j) =
      explore_shape (model_explores (project_models p' ! i) ! j)"
    and l: "j < length (model_explores (project_models p' ! i))"
    by (rule map_eq_nth)+
  show "j < length (model_explores (project_models p' ! i))" by (rule l)
  from e show "explore_name (model_explores (project_models p ! i) ! j) =
         explore_name (model_explores (project_models p' ! i) ! j)"
    and "map dimension_shape (explore_dimensions (model_explores (project_models p ! i) ! j)) =
         map dimension_shape (explore_dimensions (model_explores (project_models p' ! i) ! j))"
    by (simp_all add: explore_shape_def)
qed

lemma same_shape_dimension:
  assumes "project_shape p = project_shape p'" and "i < length (project_models p)"
    and "j < length (model_explores (project_models p ! i))"
    and "k < length (explore_dimensions (model_explores (project_models p ! i) ! j))"
  shows "k < length (explore_dimensions (model_explores (project_models p' ! i) ! j))"
    and "dimension_shape (explore_dimensions (model_explores (project_models p ! i) ! j) ! k) =
         dimension_shape (explore_dimensions (model_explores (project_models p' ! i) ! j) ! k)"
  using same_shape_explore(3) [OF assms(1-3)] assms(4) by (rule map_eq_nth)+

lemma listed_at:
  assumes "hierarchy_listed c p" and "i < length (project_models p)"
    and "j < length (model_explores (project_models p ! i))"
    and "d \<in> set (explore_dimensions (model_explores (project_models p ! i) ! j))"
  shows "from_listing c (model_name (project_models p ! i))
           (explore_name (model_explores (project_models p ! i) ! j)) d"
  using assms unfolding hierarchy_listed_def by (meson nth_mem)

lemma hierarchy_listed_shape:
  assumes "project_shape p = project_shape p'" and "hierarchy_listed c p"
  shows "hierarchy_listed c p'"
  unfolding hierarchy_listed_def
proof (intro ballI)
  fix m' e' d'
  assume m': "m' \<in> set (project_models p')" and e': "e' \<in> set (model_explores m')"
    and d': "d' \<in> set (explore_dimensions e')"
  from assms(1) m' obtain m where m: "m \<in> set (project_models p)"
    "model_shape m = model_shape m'"
    unfolding project_shape_def using map_eq_in_set by metis
  from m(2) have mn: "model_name m = model_name m'"
    and es: "map explore_shape (model_explores m) = map explore_shape (model_explores m')"
    by (simp_all add: model_shape_def)
  from map_eq_in_set [OF es e'] obtain e where e: "e \<in> set (model_explores m)"
    "explore_shape e = explore_shape e'" by blast
  from e(2) have en: "explore_name e = explore_name e'"
    and ds: "map dimension_shape (explore_dimensions e) =
             map dimension_shape (explore_dimensions e')"
    by (simp_all add: explore_shape_def)
  from map_eq_in_set [OF ds d'] obtain d where d: "d \<in> set (explore_dimensions e)"
    "dimension_shape d = dimension_shape d'" by blast
  from assms(2) m(1) e(1) d(1) have "from_listing c (model_name m) (explore_name e) d"
    unfolding hierarchy_listed_def by blast
  then show "from_listing c (model_name m') (explore_name e') d'"
    using from_listing_shape [OF d(2)] mn en by simp
qed

lemma from_listing_name:
  assumes "from_listing c mname ename d"
  shows "\<exists>dj\<in>set (get_dimensions c mname ename). \<not> dj_ignore dj \<and> dj_name dj = dimension_name d"
proof -
  from assms obtain dj where "dj \<in> set (get_dimensions c mname ename)" "\<not> dj_ignore dj"
    "dimension_name d = dj_name dj"
    unfolding from_listing_def by blast
  then have "dj \<in> set (get_dimensions c mname ename) \<and> \<not> dj_ignore dj \<and>
      dj_name dj = dimension_name d" by simp
  then show ?thesis by blast
qed

text \<open>
  A task of explore \<open>j\<close> of model \<open>i\<close> fits the mode and the built project \<open>B\<close>
  when it is the explore's one task in batch mode, or the task of one of the explore's
  dimensions otherwise.
\<close>

lemma task_query_listed:
  assumes S: "project_shape (rs_project st) = project_shape B"
    and H: "hierarchy_listed c B"
    and i: "i < length (project_models B)"
    and j: "j < length (model_explores (project_models B ! i))"
    and ok: "case task of
               Query_explore \<Rightarrow> truthy batch
             | Query_dimension k \<Rightarrow> \<not> truthy batch \<and>
                 k < length (explore_dimensions (model_explores (project_models B ! i) ! j))"
  shows "query_listed c (task_query st i j task)"
proof -
  note m = same_shape_model [OF S [symmetric] i]
  note e = same_shape_explore [OF S [symmetric] i j]
  have Hst: "hierarchy_listed c (rs_project st)"
    using S [symmetric] H by (rule hierarchy_listed_shape)
  have all: "\<forall>d\<in>set (explore_dimensions (explore_at st i j)).
      from_listing c (model_name (model_at st i)) (explore_name (explore_at st i j)) d"
    unfolding explore_at_def model_at_def
    using listed_at [OF Hst m(1) e(1)] by blast
  show ?thesis
  proof (cases task)
    case Query_explore
    then show ?thesis
      using all from_listing_name by (auto simp: query_listed_def)
  next
    case (Query_dimension k)
    with ok have k: "k < length (explore_dimensions (model_explores (project_models B ! i) ! j))"
      by simp
    note d = same_shape_dimension [OF S [symmetric] i j k]
    have "dimension_at st i j k \<in> set (explore_dimensions (explore_at st i j))"
      unfolding dimension_at_def explore_at_def model_at_def using d(1) by simp
    with all have "from_listing c (model_name (model_at st i)) (explore_name (explore_at st i j))
        (dimension_at st i j k)" by blast
    then show ?thesis
      using Query_dimension from_listing_name by (auto simp: query_listed_def)
  qed
qed

lemma task_result_step:
  assumes S: "project_shape (rs_project st) = project_shape B"
    and H: "hierarchy_listed c B"
    and i: "i < length (project_models B)"
    and j: "j < length (model_explores (project_models B ! i))"
    and ok: "case task of
               Query_explore \<Rightarrow> truthy batch
             | Query_dimension k \<Rightarrow> \<not> truthy batch \<and>
                 k < length (explore_dimensions (model_explores (project_models B ! i) ! j))"
    and r: "fst (task_result py_str i j task outcome st) = Inr (Some error)"
  shows "if truthy batch then explore_error_of B error else dimension_error_of c B error"
proof -
  note m = same_shape_model [OF S [symmetric] i]
  note e = same_shape_explore [OF S [symmetric] i j]
  have mi: "project_models B ! i \<in> set (project_models B)"
    using i by simp
  have ei: "model_explores (project_models B ! i) ! j \<in>
      set (model_explores (project_models B ! i))"
    using j by simp
  show ?thesis
  proof (cases task)
    case Query_explore
    with ok have b: "truthy batch" by simp
    from r Query_explore have "fst (explore_result py_str i j outcome st) = Inr (Some error)"
      by simp
    from explore_result_error [OF this]
    have "err_path error = model_name (project_models B ! i) @ ''/'' @
            explore_name (model_explores (project_models B ! i) ! j)"
      and "err_url error = None"
      by (simp_all add: model_at_def explore_at_def m(2) e(2))
    with mi ei have "explore_error_of B error"
      unfolding explore_error_of_def by blast
    with b show ?thesis by simp
  next
    case (Query_dimension k)
    with ok have b: "\<not> truthy batch"
      and k: "k < length (explore_dimensions (model_explores (project_models B ! i) ! j))"
      by simp_all
    note d = same_shape_dimension [OF S [symmetric] i j k]
    let ?d = "explore_dimensions (model_explores (project_models B ! i) ! j) ! k"
    from d(2) have dn: "dimension_name ?d = dimension_name (dimension_at st i j k)"
      and du: "dimension_url ?d = dimension_url (dimension_at st i j k)"
      by (simp_all add: dimension_shape_def dimension_at_def explore_at_def model_at_def)
    from r Query_dimension
    have "fst (dimension_result py_str i j k outcome st) = Inr (Some error)" by simp
    from dimension_result_error [OF this]
    have "err_path error = model_name (project_models B ! i) @ ''/'' @ dimension_name ?d"
      and "err_url error = Some (dimension_url ?d)"
      by (simp_all add: model_at_def m(2) dn du)
    moreover have di: "?d \<in> set (explore_dimensions (model_explores (project_models B ! i) ! j))"
      using k by simp
    moreover have "from_listing c (model_name (project_models B ! i))
        (explore_name (model_explores (project_models B ! i) ! j)) ?d"
      using listed_at [OF H i j di] .
    ultimately have "dimension_error_of c B error"
      unfolding dimension_error_of_def using mi ei by blast
    with b show ?thesis by simp
  qed
qed

lemma gather_step:
  assumes S: "project_shape (rs_project st) = project_shape B"
    and H: "hierarchy_listed c B"
    and L: "list_all (query_listed c) (rs_queries st)"
    and i: "i < length (project_models B)"
    and j: "j < length (model_explores (project_models B ! i))"
    and ok: "\<forall>task\<in>set tasks. case task of
               Query_explore \<Rightarrow> truthy batch
             | Query_dimension k \<Rightarrow> \<not> truthy batch \<and>
                 k < length (explore_dimensions (model_explores (project_models B ! i) ! j))"
  shows "project_shape (rs_project (snd (gather c py_str order late i j tasks st))) =
           project_shape B
       \<and> list_all (query_listed c) (rs_queries (snd (gather c py_str order late i j tasks st)))"
    and "fst (gather c py_str order late i j tasks st) = Inr results \<Longrightarrow>
           list_all (\<lambda>r. case r of None \<Rightarrow> True
              | Some error \<Rightarrow>
                  (if truthy batch then explore_error_of B error
                   else dimension_error_of c B error)) results"
proof -
  let ?I = "\<lambda>s::run_state. project_shape (rs_project s) = project_shape B
       \<and> list_all (query_listed c) (rs_queries s)"
  let ?Q = "\<lambda>r. case r of None \<Rightarrow> True
              | Some error \<Rightarrow>
                  (if truthy batch then explore_error_of B error
                   else dimension_error_of c B error)"
  define queries where "queries = map (task_query st i j) tasks"
  define started where "started = st\<lparr>rs_queries := rs_queries st @ queries\<rparr>"
  define finish where
    "finish = (\<lambda>t. task_result py_str i j (tasks ! t) (answer c (queries ! t)))"
  let ?ts = "completion_order (length tasks) order"
  have g: "gather c py_str order late i j tasks st =
      complete finish late ?ts (replicate (length tasks) None) started"
    by (simp add: gather_def Let_def queries_def started_def finish_def)
  have task_ok: "case tasks ! t of
               Query_explore \<Rightarrow> truthy batch
             | Query_dimension k \<Rightarrow> \<not> truthy batch \<and>
                 k < length (explore_dimensions (model_explores (project_models B ! i) ! j))"
    if "t \<in> set ?ts" for t
  proof -
    from that have "t < length tasks" by (simp add: completion_order_set)
    then have "tasks ! t \<in> set tasks" by simp
    with ok show ?thesis by blast
  qed
  have "list_all (query_listed c) queries"
    unfolding queries_def list_all_iff
    using task_query_listed [OF S H i j] ok by auto
  then have I0: "?I started"
    using S L by (simp add: started_def)
  have step: "?I (snd (finish t s))" if "t \<in> set ?ts" and "?I s" for t s
    using that(2) by (simp add: finish_def task_result_shape task_result_queries)
  show "project_shape (rs_project (snd (gather c py_str order late i j tasks st))) =
           project_shape B
       \<and> list_all (query_listed c) (rs_queries (snd (gather c py_str order late i j tasks st)))"
    unfolding g
    by (rule complete_invariant [where I = ?I and st = started, OF I0]) (rule step)
  assume "fst (gather c py_str order late i j tasks st) = Inr results"
  then have res: "fst (complete finish late ?ts (replicate (length tasks) None) started) =
      Inr results"
    by (simp add: g)
  have init: "list_all ?Q (replicate (length tasks) None)"
    by (simp add: list_all_iff)
  show "list_all ?Q results"
  proof (rule complete_results [where I = ?I and Q = ?Q and st = started and ts = ?ts
        and finish = finish and late = late and results = "replicate (length tasks) None",
        OF I0 _ _ init res])
    fix t s
    assume "t \<in> set ?ts" and "?I s"
    then show "?I (snd (finish t s))" by (rule step)
  next
    fix t s r
    assume t: "t \<in> set ?ts" and Is: "?I s" and r: "fst (finish t s) = Inr r"
    from Is have s1: "project_shape (rs_project s) = project_shape B" by simp
    show "?Q r"
    proof (cases r)
      case None
      then show ?thesis by simp
    next
      case (Some error)
      with r have "fst (task_result py_str i j (tasks ! t) (answer c (queries ! t)) s) =
          Inr (Some error)"
        by (simp add: finish_def)
      from task_result_step [OF s1 H i j task_ok [OF t] this] Some show ?thesis by simp
    qed
  qed
qed

lemma validate_explore_step:
  assumes S: "project_shape (rs_project st) = project_shape B"
    and H: "hierarchy_listed c B"
    and L: "list_all (query_listed c) (rs_queries st)"
    and i: "i < length (project_models B)"
    and j: "j < length (model_explores (project_models B ! i))"
  shows "project_shape (rs_project (snd (validate_explore c py_str schedule i j batch st))) =
           project_shape B
       \<and> list_all (query_listed c) (rs_queries (snd (validate_explore c py_str schedule i j batch st)))"
    and "fst (validate_explore c py_str schedule i j batch st) = Inr errors \<Longrightarrow>
           list_all (\<lambda>error. if truthy batch then explore_error_of B error
                      else dimension_error_of c B error) errors"
proof -
  let ?tasks = "create_tasks batch (explore_at st i j)"
  have "map dimension_shape (explore_dimensions (model_explores (project_models B ! i) ! j)) =
      map dimension_shape (explore_dimensions (explore_at st i j))"
    unfolding explore_at_def model_at_def
    by (rule same_shape_explore(3) [OF S [symmetric] i j])
  then have len: "length (explore_dimensions (explore_at st i j)) =
      length (explore_dimensions (model_explores (project_models B ! i) ! j))"
    using map_eq_imp_length_eq by metis
  have ok: "\<forall>task\<in>set ?tasks. case task of
               Query_explore \<Rightarrow> truthy batch
             | Query_dimension k \<Rightarrow> \<not> truthy batch \<and>
                 k < length (explore_dimensions (model_explores (project_models B ! i) ! j))"
    by (auto simp: create_tasks_def len)
  have snd_eq: "snd (validate_explore c py_str schedule i j batch st) =
      snd (gather c py_str (fst (schedule i j)) (snd (schedule i j)) i j ?tasks st)"
    by (simp add: validate_explore_def split: prod.splits sum.splits)
  show "project_shape (rs_project (snd (validate_explore c py_str schedule i j batch st))) =
           project_shape B
       \<and> list_all (query_listed c) (rs_queries (snd (validate_explore c py_str schedule i j batch st)))"
    unfolding snd_eq by (rule gather_step(1) [OF S H L i j ok])
  assume "fst (validate_explore c py_str schedule i j batch st) = Inr errors"
  then obtain results where g: "fst (gather c py_str (fst (schedule i j)) (snd (schedule i j)) i j ?tasks st) = Inr results"
    and errors: "errors = map the (filter (\<lambda>error. error \<noteq> None) results)"
    by (auto simp: validate_explore_def split: prod.splits sum.splits)
  from gather_step(2) [OF S H L i j ok g]
  have "list_all (\<lambda>r. case r of None \<Rightarrow> True
              | Some error \<Rightarrow>
                  (if truthy batch then explore_error_of B error
                   else dimension_error_of c B error)) results" .
  then show "list_all (\<lambda>error. if truthy batch then explore_error_of B error
                      else dimension_error_of c B error) errors"
    unfolding errors by (induction results) auto
qed

lemma validate_model_step:
  assumes S: "project_shape (rs_project st) = project_shape B"
    and H: "hierarchy_listed c B"
    and L: "list_all (query_listed c) (rs_queries st)"
    and i: "i < length (project_models B)"
  shows "project_shape (rs_project (snd (validate_model c py_str schedule batch i st))) =
           project_shape B
       \<and> list_all (query_listed c) (rs_queries (snd (validate_model c py_str schedule batch i st)))"
    and "fst (validate_model c py_str schedule batch i st) = Inr errors \<Longrightarrow>
           list_all (\<lambda>error. if truthy batch then explore_error_of B error
                      else dimension_error_of c B error) errors"
proof -
  let ?I = "\<lambda>s::run_state. project_shape (rs_project s) = project_shape B
       \<and> list_all (query_listed c) (rs_queries s)"
  let ?js = "[0..<length (model_explores (model_at st i))]"
  have "map explore_shape (model_explores (project_models B ! i)) =
      map explore_shape (model_explores (model_at st i))"
    unfolding model_at_def by (rule same_shape_model(3) [OF S [symmetric] i])
  then have len: "length (model_explores (model_at st i)) =
      length (model_explores (project_models B ! i))"
    using map_eq_imp_length_eq by metis
  have I0: "?I st" using S L by simp
  have step: "?I (snd (validate_explore c py_str schedule i j batch s))"
    if "j \<in> set ?js" and "?I s" for j s
  proof -
    from that(1) len have j: "j < length (model_explores (project_models B ! i))" by simp
    from that(2) have s1: "project_shape (rs_project s) = project_shape B"
      and s2: "list_all (query_listed c) (rs_queries s)" by simp_all
    show ?thesis by (rule validate_explore_step(1) [OF s1 H s2 i j])
  qed
  show "project_shape (rs_project (snd (validate_model c py_str schedule batch i st))) =
           project_shape B
       \<and> list_all (query_listed c) (rs_queries (snd (validate_model c py_str schedule batch i st)))"
    unfolding validate_model_def
    by (rule for_each_invariant [where I = ?I, OF I0]) (rule step)
  assume "fst (validate_model c py_str schedule batch i st) = Inr errors"
  then have res: "fst (for_each (\<lambda>j. validate_explore c py_str schedule i j batch) ?js st) = Inr errors"
    by (simp add: validate_model_def)
  show "list_all (\<lambda>error. if truthy batch then explore_error_of B error
                      else dimension_error_of c B error) errors"
  proof (rule for_each_results [where I = ?I and xs = ?js and st = st
        and body = "\<lambda>j. validate_explore c py_str schedule i j batch", OF I0 _ _ res])
    fix j s
    assume "j \<in> set ?js" and "?I s"
    then show "?I (snd (validate_explore c py_str schedule i j batch s))" by (rule step)
  next
    fix j s ys
    assume jj: "j \<in> set ?js" and Is: "?I s"
      and ys: "fst (validate_explore c py_str schedule i j batch s) = Inr ys"
    from jj len have j: "j < length (model_explores (project_models B ! i))" by simp
    from Is have s1: "project_shape (rs_project s) = project_shape B"
      and s2: "list_all (query_listed c) (rs_queries s)" by simp_all
    show "list_all (\<lambda>error. if truthy batch then explore_error_of B error
                      else dimension_error_of c B error) ys"
      by (rule validate_explore_step(2) [OF s1 H s2 i j ys])
  qed
qed

lemma validate_step:
  assumes S: "project_shape (rs_project st) = project_shape B"
    and H: "hierarchy_listed c B"
    and L: "list_all (query_listed c) (rs_queries st)"
  shows "project_shape (rs_project (snd (validate c py_str schedule batch st))) = project_shape B
       \<and> list_all (query_listed c) (rs_queries (snd (validate c py_str schedule batch st)))"
    and "fst (validate c py_str schedule batch st) = Inr errors \<Longrightarrow>
           list_all (\<lambda>error. if truthy batch then explore_error_of B error
                      else dimension_error_of c B error) errors"
proof -
  let ?I = "\<lambda>s::run_state. project_shape (rs_project s) = project_shape B
       \<and> list_all (query_listed c) (rs_queries s)"
  let ?is = "[0..<length (project_models (rs_project st))]"
  from S have "map model_shape (project_models (rs_project st)) =
      map model_shape (project_models B)"
    by (simp add: project_shape_def)
  then have len: "length (project_models (rs_project st)) = length (project_models B)"
    by (rule map_eq_imp_length_eq)
  have I0: "?I st" using S L by simp
  have step: "?I (snd (validate_model c py_str schedule batch i s))"
    if "i \<in> set ?is" and "?I s" for i s
  proof -
    from that(1) len have i: "i < length (project_models B)" by simp
    from that(2) have s1: "project_shape (rs_project s) = project_shape B"
      and s2: "list_all (query_listed c) (rs_queries s)" by simp_all
    show ?thesis by (rule validate_model_step(1) [OF s1 H s2 i])
  qed
  show "project_shape (rs_project (snd (validate c py_str schedule batch st))) = project_shape B
       \<and> list_all (query_listed c) (rs_queries (snd (validate c py_str schedule batch st)))"
    unfolding validate_def
    by (rule for_each_invariant [where I = ?I, OF I0]) (rule step)
  assume "fst (validate c py_str schedule batch st) = Inr errors"
  then have res: "fst (for_each (validate_model c py_str schedule batch) ?is st) = Inr errors"
    by (simp add: validate_def)
  show "list_all (\<lambda>error. if truthy batch then explore_error_of B error
                      else dimension_error_of c B error) errors"
  proof (rule for_each_results [where I = ?I and xs = ?is and st = st
        and body = "validate_model c py_str schedule batch", OF I0 _ _ res])
    fix i s
    assume "i \<in> set ?is" and "?I s"
    then show "?I (snd (validate_model c py_str schedule batch i s))" by (rule step)
  next
    fix i s ys
    assume ii: "i \<in> set ?is" and Is: "?I s"
      and ys: "fst (validate_model c py_str schedule batch i s) = Inr ys"
    from ii len have i: "i < length (project_models B)" by simp
    from Is have s1: "project_shape (rs_project s) = project_shape B"
      and s2: "list_all (query_listed c) (rs_queries s)" by simp_all
    show "list_all (\<lambda>error. if truthy batch then explore_error_of B error
                      else dimension_error_of c B error) ys"
      by (rule validate_model_step(2) [OF s1 H s2 i ys])
  qed
qed

text \<open>
  Claim C6. In a project that \<open>build_project\<close> has built, every dimension of every
  explore stands for an entry of that explore's dimension listing that is not ignored, and
  is not ignored itself: an entry with \<open>ignore\<close> set is in no explore. Validating the
  built project, in either mode and also when the run is aborted, sends only queries that
  ask for listed dimensions that are not ignored, and leaves the hierarchy as it is in this
  respect. The errors it returns are errors of explores of the project in batch mode, and
  in the other mode errors of dimensions of the project, which are not ignored.
\<close>

theorem ignored_dimension_never_validated:
  assumes "build_project c set_order selectors self = Inr built"
  shows "hierarchy_listed c built
    \<and> (\<forall>m\<in>set (project_models built). \<forall>e\<in>set (model_explores m).
          \<forall>d\<in>set (explore_dimensions e). \<not> dimension_ignore d)
    \<and> list_all (query_listed c)
         (rs_queries (snd (validate c py_str schedule batch \<lparr>rs_project = built, rs_queries = []\<rparr>)))
    \<and> hierarchy_listed c
         (rs_project (snd (validate c py_str schedule batch \<lparr>rs_project = built, rs_queries = []\<rparr>)))
    \<and> (\<forall>errors.
          fst (validate c py_str schedule batch \<lparr>rs_project = built, rs_queries = []\<rparr>) = Inr errors \<longrightarrow>
          list_all (\<lambda>error. if truthy batch then explore_error_of built error
                     else dimension_error_of c built error) errors)"
proof -
  let ?st = "\<lparr>rs_project = built, rs_queries = []\<rparr>"
  have H: "hierarchy_listed c built"
    using assms by (rule build_project_listed)
  have no_ignored: "\<forall>m\<in>set (project_models built). \<forall>e\<in>set (model_explores m).
          \<forall>d\<in>set (explore_dimensions e). \<not> dimension_ignore d"
    using H unfolding hierarchy_listed_def from_listing_def by blast
  have S: "project_shape (rs_project ?st) = project_shape built" by simp
  have L: "list_all (query_listed c) (rs_queries ?st)" by simp
  note inv = validate_step(1) [OF S H L, of py_str schedule batch]
  have H': "hierarchy_listed c (rs_project (snd (validate c py_str schedule batch ?st)))"
    using inv H hierarchy_listed_shape [of built] by metis
  have E: "\<forall>errors. fst (validate c py_str schedule batch ?st) = Inr errors \<longrightarrow>
          list_all (\<lambda>error. if truthy batch then explore_error_of built error
                     else dimension_error_of c built error) errors"
    using validate_step(2) [OF S H L] by blast
  show ?thesis
    using H no_ignored inv H' E by blast
qed

theorem ignored_dimension_never_validated_witness:
  "build_project
       \<lparr>base_url = ''u'',
          get_models = [\<lparr>mj_name = ''a'', mj_project = ''p'', mj_explores = [''x'']\<rparr>],
          get_dimensions = (\<lambda>m e. [\<lparr>dj_name = ''d1'', dj_url = ''/1'', dj_ignore = False\<rparr>,
                                    \<lparr>dj_name = ''d2'', dj_url = ''/2'', dj_ignore = True\<rparr>]),
          query_result = (\<lambda>m e ds. Inr (PyDict
             [(''errors'', PyList [PyDict [(''message_details'', PyStr ''boom'')]]),
              (''sql'', PyStr ''SELECT 1'')]))\<rparr>
       (\<lambda>S. []) [''a.x''] (SqlValidator_init ''p'') =
     Inr \<lparr>project_name = ''p'', project_models =
           [\<lparr>model_name = ''a'', model_project = ''p'', model_explores =
              [\<lparr>explore_name = ''x'', explore_dimensions =
                 [\<lparr>dimension_name = ''d1'', dimension_url = ''u/1'', dimension_ignore = False,
                   dimension_errored = False, dimension_error = None\<rparr>],
                explore_errored = False, explore_error = None\<rparr>],
             model_errored = False\<rparr>]\<rparr>
   \<and> hierarchy_listed
       \<lparr>base_url = ''u'',
          get_models = [\<lparr>mj_name = ''a'', mj_project = ''p'', mj_explores = [''x'']\<rparr>],
          get_dimensions = (\<lambda>m e. [\<lparr>dj_name = ''d1'', dj_url = ''/1'', dj_ignore = False\<rparr>,
                                    \<lparr>dj_name = ''d2'', dj_url = ''/2'', dj_ignore = True\<rparr>]),
          query_result = (\<lambda>m e ds. Inr (PyDict
             [(''errors'', PyList [PyDict [(''message_details'', PyStr ''boom'')]]),
              (''sql'', PyStr ''SELECT 1'')]))\<rparr>
       \<lparr>project_name = ''p'', project_models =
           [\<lparr>model_name = ''a'', model_project = ''p'', model_explores =
              [\<lparr>explore_name = ''x'', explore_dimensions =
                 [\<lparr>dimension_name = ''d1'', dimension_url = ''u/1'', dimension_ignore = False,
                   dimension_errored = False, dimension_error = None\<rparr>],
                explore_errored = False, explore_error = None\<rparr>],
             model_errored = False\<rparr>]\<rparr>
   \<and> list_all (query_listed
       \<lparr>base_url = ''u'',
          get_models = [\<lparr>mj_name = ''a'', mj_project = ''p'', mj_explores = [''x'']\<rparr>],
          get_dimensions = (\<lambda>m e. [\<lparr>dj_name = ''d1'', dj_url = ''/1'', dj_ignore = False\<rparr>,
                                    \<lparr>dj_name = ''d2'', dj_url = ''/2'', dj_ignore = True\<rparr>]),
          query_result = (\<lambda>m e ds. Inr (PyDict
             [(''errors'', PyList [PyDict [(''message_details'', PyStr ''boom'')]]),
              (''sql'', PyStr ''SELECT 1'')]))\<rparr>)
       (rs_queries (snd (validate
          \<lparr>base_url = ''u'',
          get_models = [\<lparr>mj_name = ''a'', mj_project = ''p'', mj_explores = [''x'']\<rparr>],
          get_dimensions = (\<lambda>m e. [\<lparr>dj_name = ''d1'', dj_url = ''/1'', dj_ignore = False\<rparr>,
                                    \<lparr>dj_name = ''d2'', dj_url = ''/2'', dj_ignore = True\<rparr>]),
          query_result = (\<lambda>m e ds. Inr (PyDict
             [(''errors'', PyList [PyDict [(''message_details'', PyStr ''boom'')]]),
              (''sql'', PyStr ''SELECT 1'')]))\<rparr>
          (\<lambda>v. []) (\<lambda>i j. ([], 0)) (PyBool False)
          \<lparr>rs_project = \<lparr>project_name = ''p'', project_models =
           [\<lparr>model_name = ''a'', model_project = ''p'', model_explores =
              [\<lparr>explore_name = ''x'', explore_dimensions =
                 [\<lparr>dimension_name = ''d1'', dimension_url = ''u/1'', dimension_ignore = False,
                   dimension_errored = False, dimension_error = None\<rparr>],
                explore_errored = False, explore_error = None\<rparr>],
             model_errored = False\<rparr>]\<rparr>, rs_queries = []\<rparr>)))
   \<and> rs_queries (snd (validate
          \<lparr>base_url = ''u'',
          get_models = [\<lparr>mj_name = ''a'', mj_project = ''p'', mj_explores = [''x'']\<rparr>],
          get_dimensions = (\<lambda>m e. [\<lparr>dj_name = ''d1'', dj_url = ''/1'', dj_ignore = False\<rparr>,
                                    \<lparr>dj_name = ''d2'', dj_url = ''/2'', dj_ignore = True\<rparr>]),
          query_result = (\<lambda>m e ds. Inr (PyDict
             [(''errors'', PyList [PyDict [(''message_details'', PyStr ''boom'')]]),
              (''sql'', PyStr ''SELECT 1'')]))\<rparr>
          (\<lambda>v. []) (\<lambda>i j. ([], 0)) (PyBool False)
          \<lparr>rs_project = \<lparr>project_name = ''p'', project_models =
           [\<lparr>model_name = ''a'', model_project = ''p'', model_explores =
              [\<lparr>explore_name = ''x'', explore_dimensions =
                 [\<lparr>dimension_name = ''d1'', dimension_url = ''u/1'', dimension_ignore = False,
                   dimension_errored = False, dimension_error = None\<rparr>],
                explore_errored = False, explore_error = None\<rparr>],
             model_errored = False\<rparr>]\<rparr>, rs_queries = []\<rparr>)) = [(''a'', ''x'', [''d1''])]
   \<and> map err_path (projr (fst (validate
          \<lparr>base_url = ''u'',
          get_models = [\<lparr>mj_name = ''a'', mj_project = ''p'', mj_explores = [''x'']\<rparr>],
          get_dimensions = (\<lambda>m e. [\<lparr>dj_name = ''d1'', dj_url = ''/1'', dj_ignore = False\<rparr>,
                                    \<lparr>dj_name = ''d2'', dj_url = ''/2'', dj_ignore = True\<rparr>]),
          query_result = (\<lambda>m e ds. Inr (PyDict
             [(''errors'', PyList [PyDict [(''message_details'', PyStr ''boom'')]]),
              (''sql'', PyStr ''SELECT 1'')]))\<rparr>
          (\<lambda>v. []) (\<lambda>i j. ([], 0)) (PyBool False)
          \<lparr>rs_project = \<lparr>project_name = ''p'', project_models =
           [\<lparr>model_name = ''a'', model_project = ''p'', model_explores =
              [\<lparr>explore_name = ''x'', explore_dimensions =
                 [\<lparr>dimension_name = ''d1'', dimension_url = ''u/1'', dimension_ignore = False,
                   dimension_errored = False, dimension_error = None\<rparr>],
                explore_errored = False, explore_error = None\<rparr>],
             model_errored = False\<rparr>]\<rparr>, rs_queries = []\<rparr>))) = [''a/d1'']"
proof -
  define c where "c = \<lparr>base_url = ''u'',
          get_models = [\<lparr>mj_name = ''a'', mj_project = ''p'', mj_explores = [''x'']\<rparr>],
          get_dimensions = (\<lambda>m e. [\<lparr>dj_name = ''d1'', dj_url = ''/1'', dj_ignore = False\<rparr>,
                                    \<lparr>dj_name = ''d2'', dj_url = ''/2'', dj_ignore = True\<rparr>]),
          query_result = (\<lambda>m e ds. Inr (PyDict
             [(''errors'', PyList [PyDict [(''message_details'', PyStr ''boom'')]]),
              (''sql'', PyStr ''SELECT 1'')]))\<rparr>"
  define B where "B = \<lparr>project_name = ''p'', project_models =
           [\<lparr>model_name = ''a'', model_project = ''p'', model_explores =
              [\<lparr>explore_name = ''x'', explore_dimensions =
                 [\<lparr>dimension_name = ''d1'', dimension_url = ''u/1'', dimension_ignore = False,
                   dimension_errored = False, dimension_error = None\<rparr>],
                explore_errored = False, explore_error = None\<rparr>],
             model_errored = False\<rparr>]\<rparr>"
  have build: "build_project c (\<lambda>S. []) [''a.x''] (SqlValidator_init ''p'') = Inr B"
    unfolding c_def B_def by code_simp
  have q: "rs_queries (snd (validate c (\<lambda>v. []) (\<lambda>i j. ([], 0)) (PyBool False)
          \<lparr>rs_project = B, rs_queries = []\<rparr>)) = [(''a'', ''x'', [''d1''])]"
    unfolding c_def B_def by code_simp
  have e: "map err_path (projr (fst (validate c (\<lambda>v. []) (\<lambda>i j. ([], 0)) (PyBool False)
          \<lparr>rs_project = B, rs_queries = []\<rparr>))) = [''a/d1'']"
    unfolding c_def B_def by code_simp
  note t = ignored_dimension_never_validated
    [OF build, of "\<lambda>v. []" "\<lambda>i j. ([], 0)" "PyBool False"]
  from t have h: "hierarchy_listed c B" by blast
  from t have l: "list_all (query_listed c)
       (rs_queries (snd (validate c (\<lambda>v. []) (\<lambda>i j. ([], 0)) (PyBool False)
          \<lparr>rs_project = B, rs_queries = []\<rparr>)))" by blast
  show ?thesis
    unfolding c_def [symmetric] B_def [symmetric]
    by (intro conjI build h l q e)
qed

end
